theory Spec2Isabelle
  imports Complex_Main "HOL-Library.Sublist" "HOL-Library.Char_ord" "HOL-Library.List_Lexorder"
begin

section \<open>Python values that the program handles\<close>

text \<open>
  The program is a Streamlit page over a pandas table. The exceptions it can meet are
  values of \<open>error\<close>; a computation that may raise returns \<open>error + 'a\<close>, with
  \<open>Inl\<close> for the exception. \<open>ParserError\<close> stands for whatever \<open>read_csv\<close> raises on
  a file it cannot read or parse. \<open>NotModelled\<close> is no exception of Python: it marks the
  two places, named below, where the model does not follow the libraries.
\<close>

datatype error =
    FileNotFoundError
  | ValueError
  | KeyError string
  | TypeError
  | IndexError
  | PermissionError
  | ParserError string
  | NotModelled

definition ebind :: "error + 'a \<Rightarrow> ('a \<Rightarrow> error + 'b) \<Rightarrow> error + 'b" where
  "ebind m f = (case m of Inl e \<Rightarrow> Inl e | Inr x \<Rightarrow> f x)"

section \<open>The visitor counter\<close>

subsection \<open>\<open>str(count)\<close> and \<open>int(f.read())\<close>\<close>

text \<open>
  \<open>str\<close> of a Python integer is its decimal numeral, with a leading minus sign for a
  negative one.
\<close>

definition digit_char :: "nat \<Rightarrow> char" where
  "digit_char d = char_of (48 + d)"

fun str_nat :: "nat \<Rightarrow> string" where
  "str_nat n = (if n < 10 then [digit_char n] else str_nat (n div 10) @ [digit_char (n mod 10)])"

declare str_nat.simps [simp del]

definition py_str :: "int \<Rightarrow> string" where
  "py_str i = (if i < 0 then CHR ''-'' # str_nat (nat (- i)) else str_nat (nat i))"

text \<open>
  \<open>int\<close> of a string: surrounding whitespace is stripped, one sign is allowed, then
  come decimal digits, where single underscores may separate digits. Anything else is
  \<open>ValueError\<close>, here \<open>None\<close>. The text is taken as ASCII, where the whitespace that
  \<open>int\<close> skips is the space and the five characters 0x09 to 0x0D; the separators 0x1C
  to 0x1F, which \<open>str.strip\<close> would remove, are not skipped. The interpreter is taken
  without a limit on the length of a decimal numeral (Python before 3.11, or the limit
  of 4300 digits switched off).
\<close>

definition is_space :: "char \<Rightarrow> bool" where
  "is_space c = (c \<in> set [CHR '' '', CHR 0x09, CHR 0x0A, CHR 0x0B, CHR 0x0C, CHR 0x0D])"

definition is_digit :: "char \<Rightarrow> bool" where
  "is_digit c = (48 \<le> (of_char c :: nat) \<and> (of_char c :: nat) \<le> 57)"

definition digit_val :: "char \<Rightarrow> nat" where
  "digit_val c = of_char c - 48"

definition strip :: "string \<Rightarrow> string" where
  "strip s = rev (dropWhile is_space (rev (dropWhile is_space s)))"

fun parse_digits :: "nat \<Rightarrow> string \<Rightarrow> nat option" where
  "parse_digits acc [] = Some acc"
| "parse_digits acc (c # cs) =
     (if is_digit c then parse_digits (10 * acc + digit_val c) cs
      else if c = CHR ''_'' then
        (case cs of
           [] \<Rightarrow> None
         | d # ds \<Rightarrow> if is_digit d then parse_digits (10 * acc + digit_val d) ds else None)
      else None)"

definition parse_nat :: "string \<Rightarrow> nat option" where
  "parse_nat s =
     (case s of
        [] \<Rightarrow> None
      | c # cs \<Rightarrow> if is_digit c then parse_digits (digit_val c) cs else None)"

definition py_int :: "string \<Rightarrow> int option" where
  "py_int s =
     (case strip s of
        [] \<Rightarrow> None
      | c # cs \<Rightarrow>
          if c = CHR ''-'' then map_option (\<lambda>n. - int n) (parse_nat cs)
          else if c = CHR ''+'' then map_option int (parse_nat cs)
          else map_option int (parse_nat (c # cs)))"

subsection \<open>The counter file\<close>

text \<open>
  \<open>visitor_count.txt\<close> beside the script: \<open>stored\<close> is its text, \<open>None\<close> when the
  file does not exist; \<open>write_ok\<close> says whether opening it for writing succeeds. A
  file that exists is taken to be readable.
\<close>

record counter_file =
  stored :: "string option"
  write_ok :: bool

text \<open>
  What the program reports with \<open>st.error\<close>: the data file was not found, loading it
  failed with an exception, the counter could not be written because of one.
\<close>

datatype message =
    DatasetNotFound
  | DatasetLoadError error
  | CounterWriteError error

text \<open>The body of the \<open>try\<close> in \<open>get_visitor_count\<close>.\<close>

definition read_count :: "counter_file \<Rightarrow> error + int" where
  "read_count f =
     (case stored f of
        None \<Rightarrow> Inl FileNotFoundError
      | Some s \<Rightarrow> (case py_int s of None \<Rightarrow> Inl ValueError | Some n \<Rightarrow> Inr n))"

definition get_visitor_count :: "counter_file \<Rightarrow> error + int" where
  "get_visitor_count f =
     (case read_count f of
        Inr n \<Rightarrow> Inr n
      | Inl FileNotFoundError \<Rightarrow> Inr 0
      | Inl ValueError \<Rightarrow> Inr 0
      | Inl e \<Rightarrow> Inl e)"

text \<open>
  \<open>increment_visitor_count\<close>: the read is outside the \<open>try\<close>, the write inside it; a
  failed write leaves the file as it was and reports the failure with \<open>st.error\<close>.
\<close>

definition write_count :: "counter_file \<Rightarrow> int \<Rightarrow> error + counter_file" where
  "write_count f count =
     (if write_ok f then Inr (f\<lparr>stored := Some (py_str count)\<rparr>) else Inl PermissionError)"

definition increment_visitor_count :: "counter_file \<Rightarrow> error + (counter_file \<times> message list)" where
  "increment_visitor_count f =
     ebind (get_visitor_count f) (\<lambda>n.
       let count = n + 1 in
       (case write_count f count of
          Inr f' \<Rightarrow> Inr (f', [])
        | Inl e \<Rightarrow> Inr (f, [CounterWriteError e])))"

text \<open>\<open>increment_visitor_count\<close> called \<open>N\<close> times in a row, stopping at an exception.\<close>

fun increment_times :: "nat \<Rightarrow> counter_file \<Rightarrow> error + counter_file" where
  "increment_times 0 f = Inr f"
| "increment_times (Suc N) f =
     ebind (increment_visitor_count f) (\<lambda>(f', _). increment_times N f')"

text \<open>The value of a string of decimal digits, read from the left.\<close>

definition decimal_value :: "nat \<Rightarrow> string \<Rightarrow> nat" where
  "decimal_value = foldl (\<lambda>a c. 10 * a + digit_val c)"

section \<open>The table\<close>

text \<open>
  A pandas \<open>DataFrame\<close> as \<open>pd.read_csv\<close> builds it: named columns and rows of cells.
  A cell is a number, a text, or missing (\<open>NaN\<close>). Numbers are the rationals: every
  finite float is one, and the program only compares them and truncates them to
  integers; infinite floats are left out. A row maps a column name to its cell; the names that count are those in
  \<open>columns\<close>, and reading any other name raises \<open>KeyError\<close>.
\<close>

datatype cell = NaN | Num rat | Str string

type_synonym row = "string \<Rightarrow> cell"

record frame =
  columns :: "string list"
  rows :: "row list"

text \<open>\<open>pd.DataFrame()\<close> and \<open>df.empty\<close> (true when either axis has length 0).\<close>

definition empty_frame :: frame where
  "empty_frame = \<lparr>columns = [], rows = []\<rparr>"

definition is_empty :: "frame \<Rightarrow> bool" where
  "is_empty df = (columns df = [] \<or> rows df = [])"

text \<open>\<open>df[c]\<close>: the cells of one column, top to bottom.\<close>

definition getitem :: "frame \<Rightarrow> string \<Rightarrow> error + cell list" where
  "getitem df c =
     (if c \<in> set (columns df) then Inr (map (\<lambda>r. r c) (rows df)) else Inl (KeyError c))"

text \<open>\<open>df[mask]\<close>: the rows whose mask entry is true, in the table's order.\<close>

definition select_rows :: "frame \<Rightarrow> bool list \<Rightarrow> frame" where
  "select_rows df keep = df\<lparr>rows := map fst (filter snd (zip (rows df) keep))\<rparr>"

text \<open>\<open>&\<close> on two boolean Series.\<close>

definition mask_and :: "bool list \<Rightarrow> bool list \<Rightarrow> bool list" where
  "mask_and m1 m2 = map2 (\<and>) m1 m2"

text \<open>\<open>Series.isin(values)\<close>; a missing cell matches a missing value.\<close>

definition isin :: "cell list \<Rightarrow> cell list \<Rightarrow> bool list" where
  "isin col vals = map (\<lambda>x. x \<in> set vals) col"

text \<open>
  \<open>Series == value\<close>, cell by cell: a missing cell equals nothing, not even a missing
  value.
\<close>

definition eq_cell :: "cell \<Rightarrow> cell \<Rightarrow> bool" where
  "eq_cell x y = (x = y \<and> x \<noteq> NaN)"

definition eq_mask :: "cell list \<Rightarrow> cell \<Rightarrow> bool list" where
  "eq_mask col v = map (\<lambda>x. eq_cell x v) col"

fun is_text :: "cell \<Rightarrow> bool" where
  "is_text (Str s) = True"
| "is_text _ = False"

text \<open>
  \<open>Series.between(left, right)\<close> is \<open>(s >= left) & (s <= right)\<close>, both ends included.
  A missing cell is in no range; comparing a text with the integer bounds raises
  \<open>TypeError\<close> for the whole column.
\<close>

fun in_range :: "int \<Rightarrow> int \<Rightarrow> cell \<Rightarrow> bool" where
  "in_range lo hi (Num x) = (of_int lo \<le> x \<and> x \<le> of_int hi)"
| "in_range lo hi _ = False"

definition between :: "cell list \<Rightarrow> int \<Rightarrow> int \<Rightarrow> error + bool list" where
  "between col lo hi =
     (if list_ex is_text col then Inl TypeError else Inr (map (in_range lo hi) col))"

text \<open>
  \<open>Series.min()\<close> and \<open>Series.max()\<close> skip missing cells and give \<open>NaN\<close> when nothing
  is left. What pandas answers for a column that holds text depends on its version;
  the model stops there with \<open>NotModelled\<close>.
\<close>

fun numbers :: "cell list \<Rightarrow> rat list" where
  "numbers [] = []"
| "numbers (Num x # xs) = x # numbers xs"
| "numbers (_ # xs) = numbers xs"

definition series_min :: "cell list \<Rightarrow> error + cell" where
  "series_min col =
     (if list_ex is_text col then Inl NotModelled
      else case numbers col of [] \<Rightarrow> Inr NaN | x # xs \<Rightarrow> Inr (Num (fold min xs x)))"

definition series_max :: "cell list \<Rightarrow> error + cell" where
  "series_max col =
     (if list_ex is_text col then Inl NotModelled
      else case numbers col of [] \<Rightarrow> Inr NaN | x # xs \<Rightarrow> Inr (Num (fold max xs x)))"

text \<open>
  \<open>int(x)\<close> on a cell: a float is truncated toward zero, \<open>NaN\<close> raises \<open>ValueError\<close>, a
  text is parsed.
\<close>

definition trunc :: "rat \<Rightarrow> int" where
  "trunc x = (if 0 \<le> x then \<lfloor>x\<rfloor> else \<lceil>x\<rceil>)"

definition int_of_cell :: "cell \<Rightarrow> error + int" where
  "int_of_cell x =
     (case x of
        NaN \<Rightarrow> Inl ValueError
      | Num q \<Rightarrow> Inr (trunc q)
      | Str s \<Rightarrow> (case py_int s of None \<Rightarrow> Inl ValueError | Some n \<Rightarrow> Inr n))"

text \<open>\<open>Series.unique().tolist()\<close>: the distinct cells in order of first appearance.\<close>

definition unique :: "cell list \<Rightarrow> cell list" where
  "unique col = rev (remdups (rev col))"

text \<open>
  \<open>sorted\<close> on a list of cells. Texts sort by code point, numbers by value, and a list
  of at most one element needs no comparison. A text beside a number or a \<open>NaN\<close>
  raises \<open>TypeError\<close>. The order Python gives to numbers mixed with \<open>NaN\<close> depends on
  the sorting algorithm; the model stops there with \<open>NotModelled\<close>.
\<close>

fun text_of :: "cell \<Rightarrow> string" where
  "text_of (Str s) = s"
| "text_of _ = []"

fun is_num :: "cell \<Rightarrow> bool" where
  "is_num (Num x) = True"
| "is_num _ = False"

definition py_sorted :: "cell list \<Rightarrow> error + cell list" where
  "py_sorted xs =
     (if length xs \<le> 1 then Inr xs
      else if list_all is_text xs then Inr (map Str (sort (map text_of xs)))
      else if list_all is_num xs then Inr (map Num (sort (numbers xs)))
      else if list_ex is_text xs then Inl TypeError
      else Inl NotModelled)"

section \<open>The loader\<close>

text \<open>
  \<open>load_alloy_data\<close> takes what \<open>pd.read_csv(full_path)\<close> does: it raises
  \<open>FileNotFoundError\<close> for an absent file, raises something else for a file it cannot
  read or parse, or returns the table.
\<close>

definition cols_to_fill :: "string list" where
  "cols_to_fill =
     [''Si_percent'', ''Fe_percent'', ''Cu_percent'', ''Mn_percent'', ''Mg_percent'',
      ''Cr_percent'', ''Zn_percent'', ''Ti_percent'', ''density_g_cm3'',
      ''thermal_expansion_e-6_k'', ''thermal_conductivity_w_mk'',
      ''electrical_conductivity_iacs'']"

text \<open>\<open>fillna(v)\<close> on a cell, and on the named cells of a row.\<close>

definition fillna :: "cell \<Rightarrow> cell \<Rightarrow> cell" where
  "fillna v x = (case x of NaN \<Rightarrow> v | _ \<Rightarrow> x)"

definition fill_row :: "string list \<Rightarrow> cell \<Rightarrow> row \<Rightarrow> row" where
  "fill_row cs v r = (\<lambda>c. if c \<in> set cs then fillna v (r c) else r c)"

text \<open>
  \<open>df[cs] = df[cs].fillna(v)\<close>: selecting a list of columns raises \<open>KeyError\<close> when one
  of them is not in the table.
\<close>

definition fill_columns :: "string list \<Rightarrow> cell \<Rightarrow> frame \<Rightarrow> error + frame" where
  "fill_columns cs v df =
     (case filter (\<lambda>c. c \<notin> set (columns df)) cs of
        [] \<Rightarrow> Inr (df\<lparr>rows := map (fill_row cs v) (rows df)\<rparr>)
      | c # _ \<Rightarrow> Inl (KeyError c))"

text \<open>The body of the \<open>try\<close>, then the two handlers.\<close>

definition load_body :: "error + frame \<Rightarrow> error + frame" where
  "load_body read_csv =
     ebind read_csv (\<lambda>df.
     ebind (fill_columns cols_to_fill (Num 0) df) (\<lambda>df.
       if ''corrosion_resistance'' \<in> set (columns df)
       then fill_columns [''corrosion_resistance''] (Str ''-'') df
       else Inr df))"

definition load_alloy_data :: "error + frame \<Rightarrow> frame \<times> message list" where
  "load_alloy_data read_csv =
     (case load_body read_csv of
        Inr df \<Rightarrow> (df, [])
      | Inl FileNotFoundError \<Rightarrow> (empty_frame, [DatasetNotFound])
      | Inl e \<Rightarrow> (empty_frame, [DatasetLoadError e]))"

section \<open>The page\<close>

subsection \<open>Widgets\<close>

text \<open>
  Streamlit's widgets give back what the user chose. \<open>multiselect options default\<close>
  gives a selection of the options, \<open>slider label lo hi value\<close> a pair inside
  \<open>[lo, hi]\<close>, \<open>selectbox label options index\<close> one of the options, or \<open>None\<close> when
  there are none. Labels are the column names here. \<open>default_widgets\<close> is the user who
  touches nothing.
\<close>

record widgets =
  multiselect :: "cell list \<Rightarrow> cell list \<Rightarrow> cell list"
  slider :: "string \<Rightarrow> int \<Rightarrow> int \<Rightarrow> int \<times> int \<Rightarrow> int \<times> int"
  selectbox :: "string \<Rightarrow> cell list \<Rightarrow> nat \<Rightarrow> cell option"

definition default_widgets :: widgets where
  "default_widgets =
     \<lparr>multiselect = (\<lambda>opts dflt. dflt),
      slider = (\<lambda>label lo hi v. v),
      selectbox = (\<lambda>label opts i. if i < length opts then Some (opts ! i) else None)\<rparr>"

subsection \<open>Filter controls\<close>

record filter_state =
  selected_corrosion :: "cell list"
  tensile_range :: "int \<times> int"
  yield_range :: "int \<times> int"
  elongation_range :: "int \<times> int"
  thermal_cond_range :: "int \<times> int"
  elec_cond_range :: "int \<times> int"

text \<open>
  The bounds of one slider: \<open>int\<close> of the column's minimum and maximum, the upper one
  raised by 1 when the two integers are equal.
\<close>

definition slider_bounds :: "frame \<Rightarrow> string \<Rightarrow> error + (int \<times> int)" where
  "slider_bounds df c =
     ebind (getitem df c) (\<lambda>col.
     ebind (series_min col) (\<lambda>mn.
     ebind (int_of_cell mn) (\<lambda>lo.
     ebind (series_max col) (\<lambda>mx.
     ebind (int_of_cell mx) (\<lambda>hi.
       Inr (lo, if lo = hi then hi + 1 else hi))))))"

definition range_slider :: "widgets \<Rightarrow> frame \<Rightarrow> string \<Rightarrow> error + (int \<times> int)" where
  "range_slider W df c =
     ebind (slider_bounds df c) (\<lambda>(lo, hi). Inr (slider W c lo hi (lo, hi)))"

definition filter_controls :: "widgets \<Rightarrow> frame \<Rightarrow> error + filter_state" where
  "filter_controls W df =
     ebind (getitem df ''corrosion_resistance'') (\<lambda>col.
     ebind (py_sorted (unique col)) (\<lambda>corrosion_options.
     ebind (range_slider W df ''tensile_strength_mpa'') (\<lambda>tensile.
     ebind (range_slider W df ''yield_strength_mpa'') (\<lambda>yield.
     ebind (range_slider W df ''elongation_percent'') (\<lambda>elongation.
     ebind (range_slider W df ''thermal_conductivity_w_mk'') (\<lambda>thermal_cond.
     ebind (range_slider W df ''electrical_conductivity_iacs'') (\<lambda>elec_cond.
       Inr \<lparr>selected_corrosion = multiselect W corrosion_options corrosion_options,
            tensile_range = tensile,
            yield_range = yield,
            elongation_range = elongation,
            thermal_cond_range = thermal_cond,
            elec_cond_range = elec_cond\<rparr>)))))))"

subsection \<open>The filter\<close>

definition between_column :: "frame \<Rightarrow> string \<Rightarrow> int \<times> int \<Rightarrow> error + bool list" where
  "between_column df c rng = ebind (getitem df c) (\<lambda>col. between col (fst rng) (snd rng))"

definition apply_filter :: "frame \<Rightarrow> filter_state \<Rightarrow> error + frame" where
  "apply_filter df fs =
     ebind (getitem df ''corrosion_resistance'') (\<lambda>corrosion.
     ebind (between_column df ''tensile_strength_mpa'' (tensile_range fs)) (\<lambda>m1.
     ebind (between_column df ''yield_strength_mpa'' (yield_range fs)) (\<lambda>m2.
     ebind (between_column df ''elongation_percent'' (elongation_range fs)) (\<lambda>m3.
     ebind (between_column df ''thermal_conductivity_w_mk'' (thermal_cond_range fs)) (\<lambda>m4.
     ebind (between_column df ''electrical_conductivity_iacs'' (elec_cond_range fs)) (\<lambda>m5.
       Inr (select_rows df
             (mask_and (mask_and (mask_and (mask_and (mask_and
                (isin corrosion (selected_corrosion fs)) m1) m2) m3) m4) m5))))))))"

text \<open>
  The filter as the specification words it: a row is retained when its corrosion
  resistance is one of the selected categories and each of the five properties lies
  in its range.
\<close>

definition retained :: "filter_state \<Rightarrow> row \<Rightarrow> bool" where
  "retained fs r =
     (r ''corrosion_resistance'' \<in> set (selected_corrosion fs) \<and>
      in_range (fst (tensile_range fs)) (snd (tensile_range fs)) (r ''tensile_strength_mpa'') \<and>
      in_range (fst (yield_range fs)) (snd (yield_range fs)) (r ''yield_strength_mpa'') \<and>
      in_range (fst (elongation_range fs)) (snd (elongation_range fs)) (r ''elongation_percent'') \<and>
      in_range (fst (thermal_cond_range fs)) (snd (thermal_cond_range fs))
        (r ''thermal_conductivity_w_mk'') \<and>
      in_range (fst (elec_cond_range fs)) (snd (elec_cond_range fs))
        (r ''electrical_conductivity_iacs''))"

subsection \<open>Choosing an alloy and a temper\<close>

text \<open>Truth value of what a \<open>selectbox\<close> returned, as \<open>if x and y\<close> tests it.\<close>

fun truthy :: "cell option \<Rightarrow> bool" where
  "truthy None = False"
| "truthy (Some NaN) = True"
| "truthy (Some (Num x)) = (x \<noteq> 0)"
| "truthy (Some (Str s)) = (s \<noteq> [])"

text \<open>\<open>xs.index(x) if x in xs else 0\<close>\<close>

definition index_or_0 :: "cell \<Rightarrow> cell list \<Rightarrow> nat" where
  "index_or_0 x xs = (if x \<in> set xs then length (takeWhile (\<lambda>y. y \<noteq> x) xs) else 0)"

text \<open>\<open>sorted(fdf[fdf['alloy'] == a]['temper'].unique().tolist())\<close>\<close>

definition tempers_of :: "frame \<Rightarrow> cell \<Rightarrow> error + cell list" where
  "tempers_of fdf a =
     ebind (getitem fdf ''alloy'') (\<lambda>alloys.
     ebind (getitem (select_rows fdf (eq_mask alloys a)) ''temper'') (\<lambda>tempers.
       py_sorted (unique tempers)))"

definition selection_controls ::
  "widgets \<Rightarrow> frame \<Rightarrow> error + (cell list \<times> cell option \<times> cell option)" where
  "selection_controls W fdf =
     ebind (getitem fdf ''alloy'') (\<lambda>alloys.
     ebind (py_sorted (unique alloys)) (\<lambda>alloy_list.
       if alloy_list = [] then Inr (alloy_list, None, None)
       else
         let selected_alloy =
               selectbox W ''alloy'' alloy_list (index_or_0 (Str ''A5052'') alloy_list)
         in
         ebind (case selected_alloy of
                  Some a \<Rightarrow> if truthy selected_alloy then tempers_of fdf a else Inr []
                | None \<Rightarrow> Inr []) (\<lambda>available_tempers.
           Inr (alloy_list, selected_alloy,
                selectbox W ''temper'' available_tempers
                  (index_or_0 (Str ''H32'') available_tempers)))))"

text \<open>
  The record shown in the main pane: \<open>.iloc[0]\<close> of the rows that match the chosen
  alloy and temper, \<open>IndexError\<close> when there is none; a warning when there was no
  alloy to choose from.
\<close>

datatype outcome = Halted | Detail row | NoMatchWarning | SelectPrompt

definition resolve :: "frame \<Rightarrow> cell list \<Rightarrow> cell option \<Rightarrow> cell option \<Rightarrow> error + outcome" where
  "resolve fdf alloy_list selected_alloy selected_temper =
     (case (selected_alloy, selected_temper) of
        (Some a, Some t) \<Rightarrow>
          if truthy selected_alloy \<and> truthy selected_temper then
            ebind (getitem fdf ''alloy'') (\<lambda>alloys.
            ebind (getitem fdf ''temper'') (\<lambda>tempers.
              case rows (select_rows fdf (mask_and (eq_mask alloys a) (eq_mask tempers t))) of
                [] \<Rightarrow> Inl IndexError
              | r # _ \<Rightarrow> Inr (Detail r)))
          else if alloy_list = [] then Inr NoMatchWarning
          else Inr SelectPrompt
      | _ \<Rightarrow> if alloy_list = [] then Inr NoMatchWarning else Inr SelectPrompt)"

text \<open>Lines 139 to 153 and the resolution that follows them.\<close>

definition select_and_resolve :: "widgets \<Rightarrow> frame \<Rightarrow> error + outcome" where
  "select_and_resolve W fdf =
     ebind (selection_controls W fdf) (\<lambda>(alloy_list, selected_alloy, selected_temper).
       resolve fdf alloy_list selected_alloy selected_temper)"

subsection \<open>\<open>main\<close>\<close>

text \<open>
  One run of \<open>main\<close> in a session: \<open>csv\<close> is what reading the data file does,
  \<open>counter\<close> the counter file, \<open>counted\<close> whether \<open>st.session_state\<close> holds
  \<open>counted\<close>. The run gives the session after it, the \<open>st.error\<close> messages, and what
  the main pane shows or the exception that ended the run.
\<close>

record session =
  csv :: "error + frame"
  counter :: counter_file
  counted :: bool

definition count_visit :: "session \<Rightarrow> error + (session \<times> message list)" where
  "count_visit s =
     (if \<not> counted s then
        ebind (increment_visitor_count (counter s)) (\<lambda>(f, msgs).
          Inr (s\<lparr>counter := f, counted := True\<rparr>, msgs))
      else Inr (s, []))"

definition render :: "widgets \<Rightarrow> frame \<Rightarrow> error + outcome" where
  "render W df =
     ebind (filter_controls W df) (\<lambda>fs.
     ebind (apply_filter df fs) (\<lambda>filtered_df.
       select_and_resolve W filtered_df))"

definition main :: "widgets \<Rightarrow> session \<Rightarrow> session \<times> message list \<times> (error + outcome)" where
  "main W s =
     (let (df, msgs) = load_alloy_data (csv s) in
      if is_empty df then (s, msgs, Inr Halted)
      else
        case count_visit s of
          Inl e \<Rightarrow> (s, msgs, Inl e)
        | Inr (s1, msgs1) \<Rightarrow>
            (s1, msgs @ msgs1,
             ebind (get_visitor_count (counter s1)) (\<lambda>visitor_count. render W df)))"

section \<open>Predicates on tables and controls\<close>

text \<open>
  The columns the filter reads, and when a table is ready for it: the six columns
  exist and the five numeric ones hold no text. Missing cells are allowed.
\<close>

definition filter_columns :: "string list" where
  "filter_columns =
     [''tensile_strength_mpa'', ''yield_strength_mpa'', ''elongation_percent'',
      ''thermal_conductivity_w_mk'', ''electrical_conductivity_iacs'']"

definition filter_ready :: "frame \<Rightarrow> bool" where
  "filter_ready df =
     (''corrosion_resistance'' \<in> set (columns df) \<and>
      (\<forall>c\<in>set filter_columns. c \<in> set (columns df) \<and> (\<forall>r\<in>set (rows df). \<not> is_text (r c))))"

text \<open>
  \<open>narrower fs' fs\<close>: every range of \<open>fs'\<close> lies inside the same range of \<open>fs\<close>, and
  the categories selected in \<open>fs'\<close> are among those selected in \<open>fs\<close>.
\<close>

definition narrower :: "filter_state \<Rightarrow> filter_state \<Rightarrow> bool" where
  "narrower fs' fs =
     (set (selected_corrosion fs') \<subseteq> set (selected_corrosion fs) \<and>
      fst (tensile_range fs) \<le> fst (tensile_range fs') \<and>
      snd (tensile_range fs') \<le> snd (tensile_range fs) \<and>
      fst (yield_range fs) \<le> fst (yield_range fs') \<and>
      snd (yield_range fs') \<le> snd (yield_range fs) \<and>
      fst (elongation_range fs) \<le> fst (elongation_range fs') \<and>
      snd (elongation_range fs') \<le> snd (elongation_range fs) \<and>
      fst (thermal_cond_range fs) \<le> fst (thermal_cond_range fs') \<and>
      snd (thermal_cond_range fs') \<le> snd (thermal_cond_range fs) \<and>
      fst (elec_cond_range fs) \<le> fst (elec_cond_range fs') \<and>
      snd (elec_cond_range fs') \<le> snd (elec_cond_range fs))"

text \<open>
  The cleaning that a successful load applies to each row, given whether the table
  has a corrosion resistance column.
\<close>

definition clean_row :: "bool \<Rightarrow> row \<Rightarrow> row" where
  "clean_row has_corrosion r =
     (if has_corrosion
      then fill_row [''corrosion_resistance''] (Str ''-'') (fill_row cols_to_fill (Num 0) r)
      else fill_row cols_to_fill (Num 0) r)"

text \<open>
  What the selection needs of a filtered table: the two identifier columns exist and
  hold non-empty text in every row, as \<open>read_csv\<close> gives them for a file in which no
  alloy or temper is left blank.
\<close>

definition identified :: "frame \<Rightarrow> bool" where
  "identified fdf =
     (''alloy'' \<in> set (columns fdf) \<and> ''temper'' \<in> set (columns fdf) \<and>
      (\<forall>r\<in>set (rows fdf).
         (\<exists>a. r ''alloy'' = Str a \<and> a \<noteq> []) \<and> (\<exists>t. r ''temper'' = Str t \<and> t \<noteq> [])))"

text \<open>A \<open>selectbox\<close> called with a valid index returns one of its options.\<close>

definition selectbox_ok :: "widgets \<Rightarrow> bool" where
  "selectbox_ok W =
     (\<forall>label opts i. i < length opts \<longrightarrow> (\<exists>x\<in>set opts. selectbox W label opts i = Some x))"

section \<open>Example files, controls and counters\<close>

text \<open>The header of the data file, and a row of it with its chemistry left blank.\<close>

definition csv_header :: "string list" where
  "csv_header =
     [''alloy'', ''temper'', ''description'', ''tensile_strength_mpa'', ''yield_strength_mpa'',
      ''elongation_percent'', ''hardness_brinell'', ''corrosion_resistance'', ''density_g_cm3'',
      ''thermal_expansion_e-6_k'', ''thermal_conductivity_w_mk'',
      ''electrical_conductivity_iacs'', ''Si_percent'', ''Fe_percent'', ''Cu_percent'',
      ''Mn_percent'', ''Mg_percent'', ''Cr_percent'', ''Zn_percent'', ''Ti_percent'',
      ''Al_percent'']"

definition alloy_row ::
  "string \<Rightarrow> string \<Rightarrow> cell \<Rightarrow> cell \<Rightarrow> cell \<Rightarrow> cell \<Rightarrow> cell \<Rightarrow> cell \<Rightarrow> row" where
  "alloy_row a t tensile yield elongation thermal elec corrosion =
     (\<lambda>c. NaN)
       (''alloy'' := Str a,
        ''temper'' := Str t,
        ''tensile_strength_mpa'' := tensile,
        ''yield_strength_mpa'' := yield,
        ''elongation_percent'' := elongation,
        ''thermal_conductivity_w_mk'' := thermal,
        ''electrical_conductivity_iacs'' := elec,
        ''corrosion_resistance'' := corrosion,
        ''Al_percent'' := Str ''Rem.'')"

text \<open>Two alloys with whole-number properties, as parsed and as loaded.\<close>

definition a5052 :: row where
  "a5052 = alloy_row ''A5052'' ''H32'' (Num 230) (Num 195) (Num 12) (Num 138) (Num 35) (Str ''A'')"

definition a6061 :: row where
  "a6061 = alloy_row ''A6061'' ''T6'' (Num 310) (Num 275) (Num 12) (Num 167) (Num 43) (Str ''B'')"

definition two_rows :: frame where
  "two_rows = \<lparr>columns = csv_header, rows = [a5052, a6061]\<rparr>"

definition loaded_two :: frame where
  "loaded_two = two_rows\<lparr>rows := [clean_row True a5052, clean_row True a6061]\<rparr>"

text \<open>
  The same two alloys, the second with an electrical conductivity of 43.5 % IACS, as
  parsed and as loaded; and the controls that \<open>main\<close> derives for them when the user
  touches nothing.
\<close>

definition a6061_frac :: row where
  "a6061_frac =
     alloy_row ''A6061'' ''T6'' (Num 310) (Num 275) (Num 12) (Num 167) (Num (87 / 2)) (Str ''B'')"

definition two_rows_frac :: frame where
  "two_rows_frac = \<lparr>columns = csv_header, rows = [a5052, a6061_frac]\<rparr>"

definition loaded_frac :: frame where
  "loaded_frac = two_rows_frac\<lparr>rows := [clean_row True a5052, clean_row True a6061_frac]\<rparr>"

definition full_span_frac :: filter_state where
  "full_span_frac =
     \<lparr>selected_corrosion = [Str ''A'', Str ''B''],
      tensile_range = (230, 310),
      yield_range = (195, 275),
      elongation_range = (12, 13),
      thermal_cond_range = (138, 167),
      elec_cond_range = (35, 43)\<rparr>"

text \<open>Two settings of the controls, the first inside the second.\<close>

definition narrow_state :: filter_state where
  "narrow_state =
     \<lparr>selected_corrosion = [Str ''A'', Str ''B''],
      tensile_range = (230, 300),
      yield_range = (195, 275),
      elongation_range = (12, 13),
      thermal_cond_range = (138, 167),
      elec_cond_range = (35, 43)\<rparr>"

definition wide_state :: filter_state where
  "wide_state =
     \<lparr>selected_corrosion = [Str ''A'', Str ''B''],
      tensile_range = (230, 310),
      yield_range = (195, 275),
      elongation_range = (12, 13),
      thermal_cond_range = (138, 167),
      elec_cond_range = (35, 43)\<rparr>"

text \<open>A row of the file with no electrical conductivity and no corrosion resistance.\<close>

definition a7075_blank :: row where
  "a7075_blank = alloy_row ''A7075'' ''T6'' (Num 570) (Num 500) (Num 11) (Num 130) NaN NaN"


text \<open>The same file without its corrosion resistance column.\<close>

definition no_corrosion_column :: frame where
  "no_corrosion_column =
     \<lparr>columns = filter (\<lambda>c. c \<noteq> ''corrosion_resistance'') csv_header, rows = [a7075_blank]\<rparr>"

text \<open>Two alloys that share one tensile strength, 200 MPa.\<close>

definition same_tensile :: frame where
  "same_tensile =
     \<lparr>columns = csv_header,
      rows = [alloy_row ''A5052'' ''H32'' (Num 200) (Num 195) (Num 12) (Num 138) (Num 35) (Str ''A''),
              alloy_row ''A6061'' ''T6'' (Num 200) (Num 275) (Num 12) (Num 167) (Num 43) (Str ''B'')]\<rparr>"

text \<open>A counter file that holds 41 and can be written.\<close>

definition fresh_counter :: counter_file where
  "fresh_counter = \<lparr>stored = Some ''41'', write_ok = True\<rparr>"





text \<open>
  A file in which the one row of an alloy has an empty temper field, which \<open>read_csv\<close>
  parses as missing; as parsed and as loaded, and the controls that \<open>main\<close> derives
  for it when the user touches nothing.
\<close>

definition a1050_no_temper :: row where
  "a1050_no_temper =
     (alloy_row ''A1050'' ''O'' (Num 75) (Num 30) (Num 40) (Num 230) (Num 61) (Str ''A''))
       (''temper'' := NaN)"

definition blank_temper :: frame where
  "blank_temper = \<lparr>columns = csv_header, rows = [a1050_no_temper]\<rparr>"

definition loaded_blank_temper :: frame where
  "loaded_blank_temper = blank_temper\<lparr>rows := [clean_row True a1050_no_temper]\<rparr>"

definition blank_temper_controls :: filter_state where
  "blank_temper_controls =
     \<lparr>selected_corrosion = [Str ''A''],
      tensile_range = (75, 76),
      yield_range = (30, 31),
      elongation_range = (40, 41),
      thermal_cond_range = (230, 231),
      elec_cond_range = (61, 62)\<rparr>"

text \<open>A session that reads the given file and has already counted its visit.\<close>

definition counted_session :: "frame \<Rightarrow> session" where
  "counted_session file = \<lparr>csv = Inr file, counter = fresh_counter, counted = True\<rparr>"

section \<open>Verification\<close>

subsection \<open>Decimal numerals\<close>

lemma is_digit_digit_char: "d < 10 \<Longrightarrow> is_digit (digit_char d)"
  by (simp add: is_digit_def digit_char_def)

lemma digit_val_digit_char: "d < 10 \<Longrightarrow> digit_val (digit_char d) = d"
  by (simp add: digit_val_def digit_char_def)

lemma not_space_digit: "is_digit c \<Longrightarrow> \<not> is_space c"
  by (auto simp: is_digit_def is_space_def)

lemma str_nat_nonempty: "str_nat n \<noteq> []"
  by (subst str_nat.simps) simp

lemma str_nat_digits: "c \<in> set (str_nat n) \<Longrightarrow> is_digit c"
proof (induction n arbitrary: c rule: str_nat.induct)
  case (1 n)
  show ?case
  proof (cases "n < 10")
    case True
    with "1.prems" show ?thesis
      by (subst (asm) str_nat.simps) (simp add: is_digit_digit_char)
  next
    case False
    with "1.prems" have "c \<in> set (str_nat (n div 10)) \<or> c = digit_char (n mod 10)"
      by (subst (asm) str_nat.simps) auto
    with False "1.IH" show ?thesis
      by (auto simp: is_digit_digit_char)
  qed
qed


lemma parse_digits_all_digits:
  "(\<And>c. c \<in> set cs \<Longrightarrow> is_digit c) \<Longrightarrow> parse_digits acc cs = Some (decimal_value acc cs)"
  by (induction cs arbitrary: acc) (simp_all add: decimal_value_def)

lemma decimal_value_str_nat: "decimal_value 0 (str_nat n) = n"
proof (induction n rule: str_nat.induct)
  case (1 n)
  show ?case
  proof (cases "n < 10")
    case True
    then show ?thesis
      by (subst str_nat.simps) (simp add: decimal_value_def digit_val_digit_char)
  next
    case False
    with "1.IH" have "decimal_value 0 (str_nat (n div 10)) = n div 10" by simp
    with False show ?thesis
      by (subst str_nat.simps) (simp add: decimal_value_def digit_val_digit_char)
  qed
qed

lemma parse_nat_str_nat: "parse_nat (str_nat n) = Some n"
proof -
  obtain c cs where s: "str_nat n = c # cs"
    using str_nat_nonempty [of n] by (cases "str_nat n") auto
  have d: "\<And>x. x \<in> set (c # cs) \<Longrightarrow> is_digit x"
    using str_nat_digits [of _ n] s by simp
  have "parse_nat (c # cs) = Some (decimal_value (digit_val c) cs)"
    using d by (simp add: parse_nat_def parse_digits_all_digits)
  also have "decimal_value (digit_val c) cs = decimal_value 0 (c # cs)"
    by (simp add: decimal_value_def)
  finally show ?thesis
    using s decimal_value_str_nat [of n] by simp
qed

lemma strip_id: "s \<noteq> [] \<Longrightarrow> \<not> is_space (hd s) \<Longrightarrow> \<not> is_space (last s) \<Longrightarrow> strip s = s"
proof -
  assume a: "s \<noteq> []" "\<not> is_space (hd s)" "\<not> is_space (last s)"
  have 1: "dropWhile is_space s = s"
    using a by (simp add: dropWhile_eq_self_iff)
  have 2: "dropWhile is_space (rev s) = rev s"
    using a by (simp add: dropWhile_eq_self_iff hd_rev)
  show ?thesis
    by (simp add: strip_def 1 2)
qed

lemma last_str_nat_digit: "is_digit (last (str_nat n))"
  using str_nat_nonempty [of n] str_nat_digits [of "last (str_nat n)" n] by simp

lemma hd_str_nat_digit: "is_digit (hd (str_nat n))"
  using str_nat_nonempty [of n] str_nat_digits [of "hd (str_nat n)" n] by simp

lemma py_int_py_str: "py_int (py_str i) = Some i"
proof (cases "i < 0")
  case True
  have "strip (CHR ''-'' # str_nat (nat (- i))) = CHR ''-'' # str_nat (nat (- i))"
    using not_space_digit [OF last_str_nat_digit [of "nat (- i)"]] str_nat_nonempty [of "nat (- i)"]
    by (intro strip_id) (simp_all add: is_space_def)
  with True show ?thesis
    by (simp add: py_int_def py_str_def parse_nat_str_nat)
next
  case False
  have st: "strip (str_nat (nat i)) = str_nat (nat i)"
    using last_str_nat_digit [of "nat i"] hd_str_nat_digit [of "nat i"] str_nat_nonempty [of "nat i"]
    by (intro strip_id) (auto simp: not_space_digit)
  obtain c cs where s: "str_nat (nat i) = c # cs"
    using str_nat_nonempty [of "nat i"] by (cases "str_nat (nat i)") auto
  have "is_digit c" using hd_str_nat_digit [of "nat i"] s by simp
  then have "c \<noteq> CHR ''-''" "c \<noteq> CHR ''+''" by (auto simp: is_digit_def)
  with False st s parse_nat_str_nat [of "nat i"] show ?thesis
    by (simp add: py_int_def py_str_def)
qed

subsection \<open>The visitor counter\<close>

lemma get_visitor_count_eq:
  "get_visitor_count f =
     Inr (case stored f of None \<Rightarrow> 0 | Some s \<Rightarrow> (case py_int s of None \<Rightarrow> 0 | Some n \<Rightarrow> n))"
  by (simp add: get_visitor_count_def read_count_def split: option.splits)

lemma increment_visitor_count_ok:
  assumes "write_ok f" and "get_visitor_count f = Inr v"
  shows "increment_visitor_count f = Inr (f\<lparr>stored := Some (py_str (v + 1))\<rparr>, [])"
  using assms by (simp add: increment_visitor_count_def ebind_def write_count_def)

lemma get_after_write: "get_visitor_count (f\<lparr>stored := Some (py_str n)\<rparr>) = Inr n"
  by (simp add: get_visitor_count_eq py_int_py_str)

lemma increment_times_ok:
  assumes "write_ok f" and "get_visitor_count f = Inr v"
  shows "\<exists>f'. increment_times N f = Inr f' \<and> write_ok f' \<and>
           get_visitor_count f' = Inr (v + int N) \<and>
           (0 < N \<longrightarrow> stored f' = Some (py_str (v + int N)))"
  using assms
proof (induction N arbitrary: f v)
  case 0
  then show ?case by simp
next
  case (Suc N)
  let ?g = "f\<lparr>stored := Some (py_str (v + 1))\<rparr>"
  have step: "increment_visitor_count f = Inr (?g, [])"
    using Suc.prems by (rule increment_visitor_count_ok)
  have "write_ok ?g" using Suc.prems by simp
  moreover have "get_visitor_count ?g = Inr (v + 1)" by (rule get_after_write)
  ultimately obtain f' where f': "increment_times N ?g = Inr f'" "write_ok f'"
      "get_visitor_count f' = Inr (v + 1 + int N)"
      "0 < N \<longrightarrow> stored f' = Some (py_str (v + 1 + int N))"
    using Suc.IH [of ?g "v + 1"] by blast
  have st: "stored f' = Some (py_str (v + 1 + int N))"
  proof (cases N)
    case 0
    with f'(1) show ?thesis by auto
  next
    case (Suc k)
    with f'(4) show ?thesis by simp
  qed
  have eq: "v + 1 + int N = v + int (Suc N)" by simp
  show ?case
    using step f'(1,2,3) st unfolding eq by (simp add: ebind_def)
qed



text \<open>
  C8. With the file writable, one increment stores \<open>str(read() + 1)\<close>, and \<open>N\<close>
  increments in a row leave a file that reads as the initial value plus \<open>N\<close>.
\<close>

theorem counter_increment:
  assumes "write_ok f" and "get_visitor_count f = Inr initial"
  shows "increment_visitor_count f = Inr (f\<lparr>stored := Some (py_str (initial + 1))\<rparr>, []) \<and>
         (\<exists>f'. increment_times N f = Inr f' \<and>
               get_visitor_count f' = Inr (initial + int N) \<and>
               (0 < N \<longrightarrow> stored f' = Some (py_str (initial + int N))))"
  using increment_visitor_count_ok [OF assms] increment_times_ok [OF assms, of N] by blast

theorem counter_increment_witness:
  "write_ok \<lparr>stored = Some ''41'', write_ok = True\<rparr> \<and>
   get_visitor_count \<lparr>stored = Some ''41'', write_ok = True\<rparr> = Inr 41 \<and>
   increment_visitor_count \<lparr>stored = Some ''41'', write_ok = True\<rparr>
     = Inr (\<lparr>stored = Some ''42'', write_ok = True\<rparr>, []) \<and>
   (\<exists>f'. increment_times 3 \<lparr>stored = Some ''41'', write_ok = True\<rparr> = Inr f' \<and>
         get_visitor_count f' = Inr 44 \<and> stored f' = Some ''44'')"
proof -
  let ?f = "\<lparr>stored = Some ''41'', write_ok = True\<rparr>"
  have w: "write_ok ?f" by simp
  have g: "get_visitor_count ?f = Inr 41"
    by (simp add: get_visitor_count_eq py_int_def strip_def is_space_def parse_nat_def
        is_digit_def digit_val_def)
  have s42: "py_str 42 = ''42''" by code_simp
  have s44: "py_str 44 = ''44''" by code_simp
  show ?thesis
    using w g s42 s44 counter_increment [OF w g, of 3] by simp
qed

subsection \<open>The filter\<close>

lemma select_rows_map: "select_rows df (map P (rows df)) = df\<lparr>rows := filter P (rows df)\<rparr>"
proof -
  have "map fst (filter snd (zip xs (map P xs))) = filter P xs" for xs :: "row list"
    by (induction xs) auto
  then show ?thesis by (simp add: select_rows_def)
qed

lemma mask_and_map: "mask_and (map P xs) (map Q xs) = map (\<lambda>x. P x \<and> Q x) xs"
  by (induction xs) (simp_all add: mask_and_def)

lemma isin_map: "isin (map f xs) vals = map (\<lambda>x. f x \<in> set vals) xs"
  by (simp add: isin_def)

lemma eq_mask_map: "eq_mask (map f xs) v = map (\<lambda>x. eq_cell (f x) v) xs"
  by (simp add: eq_mask_def)

lemma getitem_present: "c \<in> set (columns df) \<Longrightarrow> getitem df c = Inr (map (\<lambda>r. r c) (rows df))"
  by (simp add: getitem_def)

lemma between_numeric:
  "\<forall>r\<in>set rs. \<not> is_text (f r) \<Longrightarrow> between (map f rs) lo hi = Inr (map (\<lambda>r. in_range lo hi (f r)) rs)"
  by (simp add: between_def list_ex_iff)

lemma between_column_ready:
  assumes "filter_ready df" and "c \<in> set filter_columns"
  shows "between_column df c rng = Inr (map (\<lambda>r. in_range (fst rng) (snd rng) (r c)) (rows df))"
proof -
  from assms have "c \<in> set (columns df)" and "\<forall>r\<in>set (rows df). \<not> is_text (r c)"
    by (auto simp: filter_ready_def)
  then show ?thesis
    by (simp add: between_column_def getitem_present ebind_def between_numeric)
qed

lemma apply_filter_rows:
  assumes "filter_ready df"
  shows "apply_filter df fs = Inr (df\<lparr>rows := filter (retained fs) (rows df)\<rparr>)"
proof -
  have c0: "getitem df ''corrosion_resistance'' = Inr (map (\<lambda>r. r ''corrosion_resistance'') (rows df))"
    using assms by (simp add: filter_ready_def getitem_present)
  have b: "\<And>c rng. c \<in> set filter_columns \<Longrightarrow>
      between_column df c rng = Inr (map (\<lambda>r. in_range (fst rng) (snd rng) (r c)) (rows df))"
    using assms by (rule between_column_ready)
  have m: "\<And>c. c \<in> set filter_columns \<longleftrightarrow> c = ''tensile_strength_mpa'' \<or> c = ''yield_strength_mpa'' \<or>
      c = ''elongation_percent'' \<or> c = ''thermal_conductivity_w_mk'' \<or> c = ''electrical_conductivity_iacs''"
    unfolding filter_columns_def by auto
  have r: "retained fs = (\<lambda>r. ((((r ''corrosion_resistance'' \<in> set (selected_corrosion fs) \<and>
      in_range (fst (tensile_range fs)) (snd (tensile_range fs)) (r ''tensile_strength_mpa'')) \<and>
      in_range (fst (yield_range fs)) (snd (yield_range fs)) (r ''yield_strength_mpa'')) \<and>
      in_range (fst (elongation_range fs)) (snd (elongation_range fs)) (r ''elongation_percent'')) \<and>
      in_range (fst (thermal_cond_range fs)) (snd (thermal_cond_range fs))
        (r ''thermal_conductivity_w_mk'')) \<and>
      in_range (fst (elec_cond_range fs)) (snd (elec_cond_range fs))
        (r ''electrical_conductivity_iacs''))"
    by (rule ext) (simp add: retained_def conj_assoc)
  show ?thesis
    unfolding apply_filter_def c0 r
    by (simp only: b m ebind_def sum.case isin_map mask_and_map select_rows_map simp_thms)
qed

lemma a5052_cells:
  "a5052 ''alloy'' = Str ''A5052''"
  "a5052 ''temper'' = Str ''H32''"
  "a5052 ''corrosion_resistance'' = Str ''A''"
  "a5052 ''tensile_strength_mpa'' = Num 230"
  "a5052 ''yield_strength_mpa'' = Num 195"
  "a5052 ''elongation_percent'' = Num 12"
  "a5052 ''thermal_conductivity_w_mk'' = Num 138"
  "a5052 ''electrical_conductivity_iacs'' = Num 35"
  by (simp_all add: a5052_def alloy_row_def)

lemma a6061_cells:
  "a6061 ''alloy'' = Str ''A6061''"
  "a6061 ''temper'' = Str ''T6''"
  "a6061 ''corrosion_resistance'' = Str ''B''"
  "a6061 ''tensile_strength_mpa'' = Num 310"
  "a6061 ''yield_strength_mpa'' = Num 275"
  "a6061 ''elongation_percent'' = Num 12"
  "a6061 ''thermal_conductivity_w_mk'' = Num 167"
  "a6061 ''electrical_conductivity_iacs'' = Num 43"
  by (simp_all add: a6061_def alloy_row_def)

lemma a6061_frac_cells:
  "a6061_frac ''alloy'' = Str ''A6061''"
  "a6061_frac ''temper'' = Str ''T6''"
  "a6061_frac ''corrosion_resistance'' = Str ''B''"
  "a6061_frac ''tensile_strength_mpa'' = Num 310"
  "a6061_frac ''yield_strength_mpa'' = Num 275"
  "a6061_frac ''elongation_percent'' = Num 12"
  "a6061_frac ''thermal_conductivity_w_mk'' = Num 167"
  "a6061_frac ''electrical_conductivity_iacs'' = Num (87 / 2)"
  by (simp_all add: a6061_frac_def alloy_row_def)

lemma header_members:
  "''alloy'' \<in> set csv_header"
  "''temper'' \<in> set csv_header"
  "''corrosion_resistance'' \<in> set csv_header"
  "''tensile_strength_mpa'' \<in> set csv_header"
  "''yield_strength_mpa'' \<in> set csv_header"
  "''elongation_percent'' \<in> set csv_header"
  "''thermal_conductivity_w_mk'' \<in> set csv_header"
  "''electrical_conductivity_iacs'' \<in> set csv_header"
  by (simp_all add: csv_header_def)

lemma filter_ready_two_rows: "filter_ready two_rows"
  by (simp add: filter_ready_def two_rows_def filter_columns_def header_members
      a5052_cells a6061_cells)

text \<open>
  C2. On a table that has the six filter columns, the five numeric ones without text,
  the filter returns a table; a row is in it exactly when it is a row of the dataset
  for which all six predicates hold, and the rows keep the dataset's order.
\<close>

theorem filter_engine_six_predicates:
  assumes "filter_ready df"
  shows "\<exists>out. apply_filter df fs = Inr out \<and>
           columns out = columns df \<and>
           rows out = filter (retained fs) (rows df) \<and>
           (\<forall>r. r \<in> set (rows out) \<longleftrightarrow> r \<in> set (rows df) \<and> retained fs r) \<and>
           subseq (rows out) (rows df)"
  using apply_filter_rows [OF assms, of fs] by simp

theorem filter_engine_six_predicates_witness:
  "filter_ready two_rows \<and>
   (\<exists>out. apply_filter two_rows narrow_state = Inr out \<and> rows out = [a5052] \<and>
          subseq (rows out) (rows two_rows))"
proof -
  have 1: "retained narrow_state a5052"
    by (simp add: retained_def narrow_state_def a5052_cells)
  have 2: "\<not> retained narrow_state a6061"
    by (simp add: retained_def narrow_state_def a6061_cells)
  obtain out where o: "apply_filter two_rows narrow_state = Inr out"
      "rows out = filter (retained narrow_state) (rows two_rows)" "subseq (rows out) (rows two_rows)"
    using filter_engine_six_predicates [OF filter_ready_two_rows, of narrow_state] by blast
  have "rows out = [a5052]"
    unfolding o(2) by (simp add: two_rows_def 1 2)
  with o filter_ready_two_rows show ?thesis by blast
qed

lemma in_range_mono: "lo \<le> lo' \<Longrightarrow> hi' \<le> hi \<Longrightarrow> in_range lo' hi' x \<Longrightarrow> in_range lo hi x"
proof (cases x)
  case (Num q)
  assume a: "lo \<le> lo'" "hi' \<le> hi" "in_range lo' hi' x"
  have "(of_int lo :: rat) \<le> of_int lo'" "(of_int hi' :: rat) \<le> of_int hi"
    using a by simp_all
  with a(3) Num show ?thesis by simp
qed simp_all

lemma retained_mono: "narrower fs' fs \<Longrightarrow> retained fs' r \<Longrightarrow> retained fs r"
proof -
  assume n: "narrower fs' fs" and r: "retained fs' r"
  have c: "r ''corrosion_resistance'' \<in> set (selected_corrosion fs)"
    using n r by (auto simp: narrower_def retained_def)
  have 1: "in_range (fst (tensile_range fs)) (snd (tensile_range fs)) (r ''tensile_strength_mpa'')"
    by (rule in_range_mono [of _ "fst (tensile_range fs')" "snd (tensile_range fs')"])
      (use n r in \<open>simp_all add: narrower_def retained_def\<close>)
  have 2: "in_range (fst (yield_range fs)) (snd (yield_range fs)) (r ''yield_strength_mpa'')"
    by (rule in_range_mono [of _ "fst (yield_range fs')" "snd (yield_range fs')"])
      (use n r in \<open>simp_all add: narrower_def retained_def\<close>)
  have 3: "in_range (fst (elongation_range fs)) (snd (elongation_range fs)) (r ''elongation_percent'')"
    by (rule in_range_mono [of _ "fst (elongation_range fs')" "snd (elongation_range fs')"])
      (use n r in \<open>simp_all add: narrower_def retained_def\<close>)
  have 4: "in_range (fst (thermal_cond_range fs)) (snd (thermal_cond_range fs))
             (r ''thermal_conductivity_w_mk'')"
    by (rule in_range_mono [of _ "fst (thermal_cond_range fs')" "snd (thermal_cond_range fs')"])
      (use n r in \<open>simp_all add: narrower_def retained_def\<close>)
  have 5: "in_range (fst (elec_cond_range fs)) (snd (elec_cond_range fs))
             (r ''electrical_conductivity_iacs'')"
    by (rule in_range_mono [of _ "fst (elec_cond_range fs')" "snd (elec_cond_range fs')"])
      (use n r in \<open>simp_all add: narrower_def retained_def\<close>)
  show ?thesis
    unfolding retained_def using c 1 2 3 4 5 by blast
qed

text \<open>
  C9. Narrowing ranges or shrinking the selected categories never gives more rows.
\<close>

theorem filter_engine_monotonic:
  assumes "filter_ready df" and "narrower fs' fs"
  shows "\<exists>out out'. apply_filter df fs = Inr out \<and> apply_filter df fs' = Inr out' \<and>
           length (rows out') \<le> length (rows out) \<and> set (rows out') \<subseteq> set (rows out)"
proof -
  have "length (filter (retained fs') (rows df)) \<le> length (filter (retained fs) (rows df))"
  proof -
    have "filter (retained fs') (rows df) = filter (retained fs') (filter (retained fs) (rows df))"
      using retained_mono [OF assms(2)] by (auto intro: filter_cong)
    then show ?thesis
      by (metis length_filter_le)
  qed
  moreover have "set (filter (retained fs') (rows df)) \<subseteq> set (filter (retained fs) (rows df))"
    using retained_mono [OF assms(2)] by auto
  ultimately show ?thesis
    using apply_filter_rows [OF assms(1)] by simp
qed

theorem filter_engine_monotonic_witness:
  "filter_ready two_rows \<and> narrower narrow_state wide_state \<and>
   (\<exists>out out'. apply_filter two_rows wide_state = Inr out \<and>
      apply_filter two_rows narrow_state = Inr out' \<and>
      rows out = [a5052, a6061] \<and> rows out' = [a5052] \<and>
      length (rows out') \<le> length (rows out))"
proof -
  have n: "narrower narrow_state wide_state"
    by (simp add: narrower_def narrow_state_def wide_state_def)
  have 1: "retained narrow_state a5052" "retained wide_state a5052" "retained wide_state a6061"
    by (simp_all add: retained_def narrow_state_def wide_state_def a5052_cells a6061_cells)
  have 2: "\<not> retained narrow_state a6061"
    by (simp add: retained_def narrow_state_def a6061_cells)
  have r: "rows two_rows = [a5052, a6061]" by (simp add: two_rows_def)
  obtain out out' where o: "apply_filter two_rows wide_state = Inr out"
      "apply_filter two_rows narrow_state = Inr out'" "length (rows out') \<le> length (rows out)"
    using filter_engine_monotonic [OF filter_ready_two_rows n] by blast
  have "rows out = filter (retained wide_state) (rows two_rows)"
      "rows out' = filter (retained narrow_state) (rows two_rows)"
    using o(1,2) unfolding apply_filter_rows [OF filter_ready_two_rows] by auto
  then have "rows out = [a5052, a6061]" "rows out' = [a5052]"
    by (simp_all add: r 1 2)
  with o n filter_ready_two_rows show ?thesis by blast
qed

subsection \<open>The loader\<close>

lemma fill_columns_present:
  "set cs \<subseteq> set (columns df) \<Longrightarrow>
   fill_columns cs v df = Inr (df\<lparr>rows := map (fill_row cs v) (rows df)\<rparr>)"
proof -
  assume "set cs \<subseteq> set (columns df)"
  then have "filter (\<lambda>c. c \<notin> set (columns df)) cs = []"
    by (auto simp: filter_empty_conv)
  then show ?thesis by (simp add: fill_columns_def)
qed



lemma fillna_eq: "fillna v x = (if x = NaN then v else x)"
  by (cases x) (simp_all add: fillna_def)


lemma load_alloy_data_success:
  "load_alloy_data read_csv = (df, []) \<longleftrightarrow> load_body read_csv = Inr df"
proof (cases "load_body read_csv")
  case (Inl e)
  then show ?thesis by (cases e) (simp_all add: load_alloy_data_def)
next
  case (Inr d)
  then show ?thesis by (simp add: load_alloy_data_def)
qed

lemma load_alloy_data_failure:
  "load_body read_csv = Inl e \<Longrightarrow>
   load_alloy_data read_csv =
     (empty_frame, [if e = FileNotFoundError then DatasetNotFound else DatasetLoadError e])"
  by (cases e) (simp_all add: load_alloy_data_def)

lemma corrosion_not_filled_with_0: "''corrosion_resistance'' \<notin> set cols_to_fill"
  by (simp add: cols_to_fill_def)


lemma clean_row_cells:
  "c \<in> set cols_to_fill \<Longrightarrow> clean_row h r c = (if r c = NaN then Num 0 else r c)"
  "h \<Longrightarrow> clean_row h r ''corrosion_resistance'' =
     (if r ''corrosion_resistance'' = NaN then Str ''-'' else r ''corrosion_resistance'')"
  "c \<notin> set cols_to_fill \<Longrightarrow> c \<noteq> ''corrosion_resistance'' \<Longrightarrow> clean_row h r c = r c"
  "\<not> h \<Longrightarrow> c \<notin> set cols_to_fill \<Longrightarrow> clean_row h r c = r c"
  using corrosion_not_filled_with_0
  by (auto simp: clean_row_def fill_row_def fillna_eq)


lemma load_body_present:
  assumes "set cols_to_fill \<subseteq> set (columns df0)"
  shows "load_body (Inr df0) =
    Inr (df0\<lparr>rows := map (clean_row (''corrosion_resistance'' \<in> set (columns df0))) (rows df0)\<rparr>)"
  using assms
  by (simp add: load_body_def ebind_def fill_columns_present clean_row_def)

lemma cols_to_fill_in_header: "set cols_to_fill \<subseteq> set csv_header"
  by (simp add: cols_to_fill_def csv_header_def)

lemma a7075_blank_cells:
  "a7075_blank ''Si_percent'' = NaN"
  "a7075_blank ''electrical_conductivity_iacs'' = NaN"
  "a7075_blank ''thermal_conductivity_w_mk'' = Num 130"
  "a7075_blank ''corrosion_resistance'' = NaN"
  "a7075_blank ''Al_percent'' = Str ''Rem.''"
  by (simp_all add: a7075_blank_def alloy_row_def)


text \<open>
  C10. A file that parses, has the twelve filled columns and has no corrosion
  resistance column loads without a message: the result is the parsed table with
  the twelve columns filled, it still has no corrosion resistance column, and no
  "-" is written anywhere.
\<close>

theorem load_without_corrosion_column:
  assumes "set cols_to_fill \<subseteq> set (columns df0)"
    and "''corrosion_resistance'' \<notin> set (columns df0)"
  shows "load_alloy_data (Inr df0) =
           (df0\<lparr>rows := map (fill_row cols_to_fill (Num 0)) (rows df0)\<rparr>, []) \<and>
         ''corrosion_resistance'' \<notin> set (columns (fst (load_alloy_data (Inr df0)))) \<and>
         (\<forall>r c. c \<notin> set cols_to_fill \<longrightarrow> fill_row cols_to_fill (Num 0) r c = r c) \<and>
         (\<forall>r c. fill_row cols_to_fill (Num 0) r c = Str ''-'' \<longrightarrow> r c = Str ''-'')"
proof -
  have "load_body (Inr df0) = Inr (df0\<lparr>rows := map (fill_row cols_to_fill (Num 0)) (rows df0)\<rparr>)"
    using assms by (simp add: load_body_def ebind_def fill_columns_present)
  then have "load_alloy_data (Inr df0) =
      (df0\<lparr>rows := map (fill_row cols_to_fill (Num 0)) (rows df0)\<rparr>, [])"
    by (simp add: load_alloy_data_success)
  moreover have "\<And>r c. fill_row cols_to_fill (Num 0) r c = Str ''-'' \<Longrightarrow> r c = Str ''-''"
    by (simp add: fill_row_def fillna_eq split: if_splits)
  ultimately show ?thesis
    using assms(2) by (auto simp: fill_row_def)
qed

theorem load_without_corrosion_column_witness:
  "set cols_to_fill \<subseteq> set (columns no_corrosion_column) \<and>
   ''corrosion_resistance'' \<notin> set (columns no_corrosion_column) \<and>
   (\<exists>df. load_alloy_data (Inr no_corrosion_column) = (df, []) \<and>
         ''corrosion_resistance'' \<notin> set (columns df) \<and>
         map (\<lambda>r. r ''corrosion_resistance'') (rows df) = [NaN] \<and>
         map (\<lambda>r. r ''electrical_conductivity_iacs'') (rows df) = [Num 0])"
proof -
  have 1: "set cols_to_fill \<subseteq> set (columns no_corrosion_column)"
    by (simp add: no_corrosion_column_def cols_to_fill_def csv_header_def)
  have 2: "''corrosion_resistance'' \<notin> set (columns no_corrosion_column)"
    by (simp add: no_corrosion_column_def)
  have 3: "fill_row cols_to_fill (Num 0) a7075_blank ''corrosion_resistance'' = NaN"
    "fill_row cols_to_fill (Num 0) a7075_blank ''electrical_conductivity_iacs'' = Num 0"
    by (simp_all add: fill_row_def fillna_eq cols_to_fill_def a7075_blank_cells)
  show ?thesis
    using load_without_corrosion_column [OF 1 2] 1 2 3
    by (simp add: no_corrosion_column_def)
qed

text \<open>
  C5. When the data file is absent the loader reports \<open>DatasetNotFound\<close>, and when
  reading, parsing or cleaning fails in another way it reports \<open>DatasetLoadError\<close>
  with the exception. Either way it returns the empty table and raises nothing, and
  \<open>main\<close> returns at once: the session and the counter file are untouched and
  nothing is rendered.
\<close>

theorem load_failure_halts:
  "(\<forall>e. csv s = Inl e \<longrightarrow> load_body (csv s) = Inl e) \<and>
   (load_body (csv s) = Inl FileNotFoundError \<longrightarrow>
      load_alloy_data (csv s) = (empty_frame, [DatasetNotFound]) \<and>
      main W s = (s, [DatasetNotFound], Inr Halted)) \<and>
   (\<forall>e. load_body (csv s) = Inl e \<and> e \<noteq> FileNotFoundError \<longrightarrow>
      load_alloy_data (csv s) = (empty_frame, [DatasetLoadError e]) \<and>
      main W s = (s, [DatasetLoadError e], Inr Halted)) \<and>
   is_empty empty_frame"
proof -
  have e: "is_empty empty_frame" by (simp add: is_empty_def empty_frame_def)
  have m: "main W s = (s, msgs, Inr Halted)" if "load_alloy_data (csv s) = (empty_frame, msgs)" for msgs
    using that e by (simp add: main_def)
  have "load_body (csv s) = Inl x" if "csv s = Inl x" for x
    using that by (simp add: load_body_def ebind_def)
  moreover have "load_alloy_data (csv s) = (empty_frame, [DatasetNotFound])"
    if "load_body (csv s) = Inl FileNotFoundError"
    using load_alloy_data_failure [OF that] by simp
  moreover have "load_alloy_data (csv s) = (empty_frame, [DatasetLoadError x])"
    if "load_body (csv s) = Inl x" "x \<noteq> FileNotFoundError" for x
    using load_alloy_data_failure [OF that(1)] that(2) by simp
  ultimately show ?thesis
    using e m by blast
qed

theorem load_failure_halts_witness:
  "main default_widgets \<lparr>csv = Inl FileNotFoundError, counter = fresh_counter, counted = False\<rparr>
     = (\<lparr>csv = Inl FileNotFoundError, counter = fresh_counter, counted = False\<rparr>,
        [DatasetNotFound], Inr Halted) \<and>
   main default_widgets
       \<lparr>csv = Inl (ParserError ''line 3''), counter = fresh_counter, counted = False\<rparr>
     = (\<lparr>csv = Inl (ParserError ''line 3''), counter = fresh_counter, counted = False\<rparr>,
        [DatasetLoadError (ParserError ''line 3'')], Inr Halted)"
  using
    load_failure_halts [of "\<lparr>csv = Inl FileNotFoundError, counter = fresh_counter, counted = False\<rparr>"
      default_widgets]
    load_failure_halts [of "\<lparr>csv = Inl (ParserError ''line 3''), counter = fresh_counter, counted = False\<rparr>"
      default_widgets]
  by simp

subsection \<open>Slider bounds\<close>

lemma numbers_set: "x \<in> set (numbers col) \<longleftrightarrow> Num x \<in> set col"
  by (induction col rule: numbers.induct) auto

lemma series_min_numeric:
  assumes "\<not> list_ex is_text col" and "numbers col \<noteq> []"
  shows "series_min col = Inr (Num (Min (set (numbers col))))"
proof -
  obtain x xs where n: "numbers col = x # xs"
    using assms(2) by (cases "numbers col") auto
  have "fold min xs x = Min (set (x # xs))"
    by (rule Min.set_eq_fold [symmetric])
  with n assms(1) show ?thesis
    by (simp add: series_min_def)
qed

lemma series_max_numeric:
  assumes "\<not> list_ex is_text col" and "numbers col \<noteq> []"
  shows "series_max col = Inr (Num (Max (set (numbers col))))"
proof -
  obtain x xs where n: "numbers col = x # xs"
    using assms(2) by (cases "numbers col") auto
  have "fold max xs x = Max (set (x # xs))"
    by (rule Max.set_eq_fold [symmetric])
  with n assms(1) show ?thesis
    by (simp add: series_max_def)
qed

lemma slider_bounds_numeric:
  assumes "c \<in> set (columns df)"
    and "\<not> list_ex is_text (map (\<lambda>r. r c) (rows df))"
    and "numbers (map (\<lambda>r. r c) (rows df)) \<noteq> []"
  shows "slider_bounds df c =
           Inr (trunc (Min (set (numbers (map (\<lambda>r. r c) (rows df))))),
                if trunc (Min (set (numbers (map (\<lambda>r. r c) (rows df))))) =
                   trunc (Max (set (numbers (map (\<lambda>r. r c) (rows df)))))
                then trunc (Max (set (numbers (map (\<lambda>r. r c) (rows df))))) + 1
                else trunc (Max (set (numbers (map (\<lambda>r. r c) (rows df))))))"
  using assms
  by (simp add: slider_bounds_def getitem_present ebind_def series_min_numeric series_max_numeric
      int_of_cell_def)

lemma trunc_of_int: "trunc (of_int k) = k"
  by (simp add: trunc_def)

lemma trunc_bounds_nonneg: "0 \<le> v \<Longrightarrow> of_int (trunc v) \<le> v \<and> v \<le> of_int (trunc v + 1)"
  by (simp add: trunc_def) linarith

text \<open>
  A column with one value. When every value of a column is the same number \<open>v\<close>,
  and \<open>v\<close> is not negative or is whole, the slider runs from \<open>int(v)\<close> to
  \<open>int(v) + 1\<close>, that range is the one selected by default, and the rows that pass it
  are exactly the rows that hold \<open>v\<close>.
\<close>

lemma constant_column_slider:
  assumes "c \<in> set (columns df)"
    and "\<forall>r\<in>set (rows df). r c = Num v \<or> r c = NaN"
    and "\<exists>r\<in>set (rows df). r c = Num v"
    and "0 \<le> v \<or> v \<in> \<int>"
  shows "series_min (map (\<lambda>r. r c) (rows df)) = Inr (Num v) \<and>
         series_max (map (\<lambda>r. r c) (rows df)) = Inr (Num v) \<and>
         slider_bounds df c = Inr (trunc v, trunc v + 1) \<and>
         range_slider default_widgets df c = Inr (trunc v, trunc v + 1) \<and>
         between (map (\<lambda>r. r c) (rows df)) (trunc v) (trunc v + 1) =
           Inr (map (\<lambda>r. r c = Num v) (rows df))"
proof -
  let ?col = "map (\<lambda>r. r c) (rows df)"
  have nt: "\<not> list_ex is_text ?col"
    using assms(2) by (auto simp: list_ex_iff)
  have "x \<in> set (numbers ?col) \<longleftrightarrow> x = v" for x
  proof
    assume "x \<in> set (numbers ?col)"
    then obtain r where "r \<in> set (rows df)" "r c = Num x"
      by (auto simp: numbers_set)
    with assms(2) show "x = v" by auto
  next
    assume xv: "x = v"
    from assms(3) obtain r where "r \<in> set (rows df)" "r c = Num v" by blast
    then have "Num v \<in> set ?col" by (metis (mono_tags, lifting) image_eqI set_map)
    with xv show "x \<in> set (numbers ?col)"
      by (simp only: numbers_set)
  qed
  then have s: "set (numbers ?col) = {v}" by auto
  then have ne: "numbers ?col \<noteq> []" by auto
  have mn: "series_min ?col = Inr (Num v)"
    using series_min_numeric [OF nt ne] s by simp
  have mx: "series_max ?col = Inr (Num v)"
    using series_max_numeric [OF nt ne] s by simp
  have sb: "slider_bounds df c = Inr (trunc v, trunc v + 1)"
    using slider_bounds_numeric [OF assms(1) nt ne] s by simp
  have rs: "range_slider default_widgets df c = Inr (trunc v, trunc v + 1)"
    by (simp add: range_slider_def sb ebind_def default_widgets_def)
  have inr: "in_range (trunc v) (trunc v + 1) (Num v)"
  proof -
    from assms(4) show ?thesis
    proof
      assume "0 \<le> v"
      from trunc_bounds_nonneg [OF this] show ?thesis by simp
    next
      assume "v \<in> \<int>"
      then obtain k where "v = of_int k" by (auto elim: Ints_cases)
      then show ?thesis by (simp add: trunc_of_int)
    qed
  qed
  have "in_range (trunc v) (trunc v + 1) (r c) = (r c = Num v)" if "r \<in> set (rows df)" for r
    using assms(2) that inr by (cases "r c") auto
  then have bt: "between ?col (trunc v) (trunc v + 1) = Inr (map (\<lambda>r. r c = Num v) (rows df))"
    using nt by (simp add: between_def)
  show ?thesis
    using mn mx sb rs bt by blast
qed

lemma constant_column_slider_example:
  "slider_bounds same_tensile ''tensile_strength_mpa'' = Inr (200, 201) \<and>
   range_slider default_widgets same_tensile ''tensile_strength_mpa'' = Inr (200, 201) \<and>
   between (map (\<lambda>r. r ''tensile_strength_mpa'') (rows same_tensile)) 200 201 = Inr [True, True]"
proof -
  have 1: "''tensile_strength_mpa'' \<in> set (columns same_tensile)"
    by (simp add: same_tensile_def csv_header_def)
  have 2: "\<forall>r\<in>set (rows same_tensile). r ''tensile_strength_mpa'' = Num 200 \<or> r ''tensile_strength_mpa'' = NaN"
    by (simp add: same_tensile_def alloy_row_def)
  have 3: "\<exists>r\<in>set (rows same_tensile). r ''tensile_strength_mpa'' = Num 200"
    by (simp add: same_tensile_def alloy_row_def)
  have 4: "(0::rat) \<le> 200 \<or> (200::rat) \<in> \<int>" by simp
  have t: "trunc 200 = 200" by (simp add: trunc_def)
  have m: "map (\<lambda>r. r ''tensile_strength_mpa'' = Num 200) (rows same_tensile) = [True, True]"
    by (simp add: same_tensile_def alloy_row_def)
  show ?thesis
    using constant_column_slider [OF 1 2 3 4] by (simp add: t m)
qed



subsection \<open>Controls left at their defaults\<close>

lemma text_cell: "is_text x \<Longrightarrow> Str (text_of x) = x"
  by (cases x) simp_all

lemma py_sorted_text:
  assumes "list_all is_text xs"
  shows "\<exists>ys. py_sorted xs = Inr ys \<and> set ys = set xs"
proof (cases "length xs \<le> 1")
  case True
  then show ?thesis by (simp add: py_sorted_def)
next
  case False
  have "Str ` text_of ` set xs = set xs"
    using assms by (force simp: list_all_iff text_cell image_iff)
  with False assms show ?thesis
    by (simp add: py_sorted_def)
qed

lemma numbers_map: "x \<in> set (numbers (map f rs)) \<longleftrightarrow> (\<exists>r\<in>set rs. f r = Num x)"
proof (induction rs)
  case Nil
  show ?case by simp
next
  case (Cons r rs)
  then show ?case by (cases "f r") auto
qed

lemma unique_set: "set (unique col) = set col"
  by (simp add: unique_def)

lemma clean_row_present: "r c \<noteq> NaN \<Longrightarrow> clean_row h r c = r c"
  by (auto simp: clean_row_def fill_row_def fillna_eq)

text \<open>A column of whole numbers: its slider, left alone, lets every row through.\<close>

lemma whole_column_full_span:
  assumes "c \<in> set (columns df)" and "rows df \<noteq> []"
    and "\<forall>r\<in>set (rows df). \<exists>x\<in>\<int>. r c = Num x"
  shows "\<exists>lo hi. range_slider default_widgets df c = Inr (lo, hi) \<and>
           (\<forall>r\<in>set (rows df). in_range lo hi (r c))"
proof -
  let ?col = "map (\<lambda>r. r c) (rows df)"
  let ?S = "set (numbers ?col)"
  have nt: "\<not> list_ex is_text ?col"
    using assms(3) by (fastforce simp: list_ex_iff)
  have mem: "x \<in> ?S \<longleftrightarrow> (\<exists>r\<in>set (rows df). r c = Num x)" for x
    by (rule numbers_map)
  obtain r0 where r0: "r0 \<in> set (rows df)"
    using assms(2) by (cases "rows df") auto
  with assms(3) obtain x0 where "r0 c = Num x0" by blast
  with r0 have "x0 \<in> ?S" using mem by blast
  then have ne: "numbers ?col \<noteq> []" by auto
  have fin: "finite ?S" "?S \<noteq> {}" using ne by simp_all
  have whole: "\<exists>k::int. x = of_int k" if "x \<in> ?S" for x
  proof -
    from that mem obtain r where "r \<in> set (rows df)" "r c = Num x" by blast
    with assms(3) have "x \<in> \<int>" by fastforce
    then show ?thesis by (auto elim: Ints_cases)
  qed
  obtain kmin :: int where kmin: "Min ?S = of_int kmin"
    using whole [OF Min_in [OF fin]] by blast
  obtain kmax :: int where kmax: "Max ?S = of_int kmax"
    using whole [OF Max_in [OF fin]] by blast
  let ?hi = "if kmin = kmax then kmax + 1 else kmax"
  have sb: "slider_bounds df c = Inr (kmin, ?hi)"
    using slider_bounds_numeric [OF assms(1) nt ne] by (simp add: kmin kmax trunc_of_int)
  have rs: "range_slider default_widgets df c = Inr (kmin, ?hi)"
    by (simp add: range_slider_def sb ebind_def default_widgets_def)
  have "in_range kmin ?hi (r c)" if "r \<in> set (rows df)" for r
  proof -
    from assms(3) that obtain x where x: "r c = Num x" by blast
    with that have xs: "x \<in> ?S" using mem by blast
    from whole [OF xs] x obtain k :: int where k: "r c = Num (of_int k)" by blast
    with xs x have "of_int k \<in> ?S" by simp
    then have "Min ?S \<le> of_int k" "of_int k \<le> Max ?S"
      using fin by simp_all
    then have "kmin \<le> k" "k \<le> kmax"
      unfolding kmin kmax by simp_all
    then show ?thesis
      using k by simp
  qed
  with rs show ?thesis by blast
qed

lemma filter_controls_default:
  assumes "getitem df ''corrosion_resistance'' = Inr col"
    and "py_sorted (unique col) = Inr opts"
    and "range_slider default_widgets df ''tensile_strength_mpa'' = Inr t"
    and "range_slider default_widgets df ''yield_strength_mpa'' = Inr y"
    and "range_slider default_widgets df ''elongation_percent'' = Inr e"
    and "range_slider default_widgets df ''thermal_conductivity_w_mk'' = Inr th"
    and "range_slider default_widgets df ''electrical_conductivity_iacs'' = Inr el"
  shows "filter_controls default_widgets df =
           Inr \<lparr>selected_corrosion = opts, tensile_range = t, yield_range = y,
                elongation_range = e, thermal_cond_range = th, elec_cond_range = el\<rparr>"
  using assms by (simp add: filter_controls_def ebind_def default_widgets_def)

text \<open>
  Full span on whole numbers: when the dataset has rows, its corrosion resistance
  cells are text and its five filter columns hold whole numbers, the controls left at
  their defaults keep every row.
\<close>

lemma full_span_keeps_whole_rows:
  assumes "rows df \<noteq> []"
    and "''corrosion_resistance'' \<in> set (columns df)"
    and "\<forall>r\<in>set (rows df). is_text (r ''corrosion_resistance'')"
    and "\<forall>c\<in>set filter_columns.
           c \<in> set (columns df) \<and> (\<forall>r\<in>set (rows df). \<exists>x\<in>\<int>. r c = Num x)"
  shows "\<exists>fs. filter_controls default_widgets df = Inr fs \<and> apply_filter df fs = Inr df"
proof -
  let ?col = "map (\<lambda>r. r ''corrosion_resistance'') (rows df)"
  have g: "getitem df ''corrosion_resistance'' = Inr ?col"
    using assms(2) by (simp add: getitem_present)
  have "list_all is_text (unique ?col)"
    using assms(3) by (auto simp: list_all_iff unique_set)
  from py_sorted_text [OF this] obtain opts where
    o: "py_sorted (unique ?col) = Inr opts" "set opts = set ?col"
    by (auto simp: unique_set)
  have w: "\<exists>lo hi. range_slider default_widgets df c = Inr (lo, hi) \<and>
             (\<forall>r\<in>set (rows df). in_range lo hi (r c))" if "c \<in> set filter_columns" for c
  proof -
    from assms(4) that have 1: "c \<in> set (columns df)"
      and 2: "\<forall>r\<in>set (rows df). \<exists>x\<in>\<int>. r c = Num x"
      by simp_all
    show ?thesis
      by (rule whole_column_full_span [OF 1 assms(1) 2])
  qed
  obtain t where t: "range_slider default_widgets df ''tensile_strength_mpa'' = Inr t"
      "\<forall>r\<in>set (rows df). in_range (fst t) (snd t) (r ''tensile_strength_mpa'')"
    using w [of "''tensile_strength_mpa''"] by (auto simp: filter_columns_def)
  obtain y where y: "range_slider default_widgets df ''yield_strength_mpa'' = Inr y"
      "\<forall>r\<in>set (rows df). in_range (fst y) (snd y) (r ''yield_strength_mpa'')"
    using w [of "''yield_strength_mpa''"] by (auto simp: filter_columns_def)
  obtain e where e: "range_slider default_widgets df ''elongation_percent'' = Inr e"
      "\<forall>r\<in>set (rows df). in_range (fst e) (snd e) (r ''elongation_percent'')"
    using w [of "''elongation_percent''"] by (auto simp: filter_columns_def)
  obtain th where th: "range_slider default_widgets df ''thermal_conductivity_w_mk'' = Inr th"
      "\<forall>r\<in>set (rows df). in_range (fst th) (snd th) (r ''thermal_conductivity_w_mk'')"
    using w [of "''thermal_conductivity_w_mk''"] by (auto simp: filter_columns_def)
  obtain el where el: "range_slider default_widgets df ''electrical_conductivity_iacs'' = Inr el"
      "\<forall>r\<in>set (rows df). in_range (fst el) (snd el) (r ''electrical_conductivity_iacs'')"
    using w [of "''electrical_conductivity_iacs''"] by (auto simp: filter_columns_def)
  let ?fs = "\<lparr>selected_corrosion = opts, tensile_range = t, yield_range = y,
                elongation_range = e, thermal_cond_range = th, elec_cond_range = el\<rparr>"
  have fc: "filter_controls default_widgets df = Inr ?fs"
    using g o(1) t(1) y(1) e(1) th(1) el(1) by (rule filter_controls_default)
  have ready: "filter_ready df"
    using assms(2,4) by (fastforce simp: filter_ready_def)
  have "retained ?fs r" if "r \<in> set (rows df)" for r
    using that o(2) t(2) y(2) e(2) th(2) el(2) by (simp add: retained_def)
  then have "filter (retained ?fs) (rows df) = rows df"
    by (simp add: filter_id_conv)
  then have "apply_filter df ?fs = Inr df"
    using apply_filter_rows [OF ready, of ?fs] by simp
  with fc show ?thesis by blast
qed

lemma load_two_rows_frac: "load_alloy_data (Inr two_rows_frac) = (loaded_frac, [])"
proof -
  have "set cols_to_fill \<subseteq> set (columns two_rows_frac)"
    using cols_to_fill_in_header by (simp add: two_rows_frac_def)
  from load_body_present [OF this] show ?thesis
    by (simp add: load_alloy_data_success loaded_frac_def two_rows_frac_def header_members)
qed

lemma loaded_frac_cells:
  "clean_row True a5052 ''alloy'' = Str ''A5052''"
  "clean_row True a5052 ''corrosion_resistance'' = Str ''A''"
  "clean_row True a5052 ''tensile_strength_mpa'' = Num 230"
  "clean_row True a5052 ''yield_strength_mpa'' = Num 195"
  "clean_row True a5052 ''elongation_percent'' = Num 12"
  "clean_row True a5052 ''thermal_conductivity_w_mk'' = Num 138"
  "clean_row True a5052 ''electrical_conductivity_iacs'' = Num 35"
  "clean_row True a6061_frac ''alloy'' = Str ''A6061''"
  "clean_row True a6061_frac ''corrosion_resistance'' = Str ''B''"
  "clean_row True a6061_frac ''tensile_strength_mpa'' = Num 310"
  "clean_row True a6061_frac ''yield_strength_mpa'' = Num 275"
  "clean_row True a6061_frac ''elongation_percent'' = Num 12"
  "clean_row True a6061_frac ''thermal_conductivity_w_mk'' = Num 167"
  "clean_row True a6061_frac ''electrical_conductivity_iacs'' = Num (87 / 2)"
  by (simp_all add: clean_row_present a5052_cells a6061_frac_cells)

lemma trunc_87_2: "trunc (87 / 2) = 43"
  by (simp add: trunc_def floor_eq_iff)

lemma loaded_frac_columns:
  "getitem loaded_frac ''corrosion_resistance'' = Inr [Str ''A'', Str ''B'']"
  "getitem loaded_frac ''tensile_strength_mpa'' = Inr [Num 230, Num 310]"
  "getitem loaded_frac ''yield_strength_mpa'' = Inr [Num 195, Num 275]"
  "getitem loaded_frac ''elongation_percent'' = Inr [Num 12, Num 12]"
  "getitem loaded_frac ''thermal_conductivity_w_mk'' = Inr [Num 138, Num 167]"
  "getitem loaded_frac ''electrical_conductivity_iacs'' = Inr [Num 35, Num (87 / 2)]"
  by (simp_all add: getitem_def loaded_frac_def two_rows_frac_def header_members loaded_frac_cells)

lemma loaded_frac_sliders:
  "range_slider default_widgets loaded_frac ''tensile_strength_mpa'' = Inr (230, 310)"
  "range_slider default_widgets loaded_frac ''yield_strength_mpa'' = Inr (195, 275)"
  "range_slider default_widgets loaded_frac ''elongation_percent'' = Inr (12, 13)"
  "range_slider default_widgets loaded_frac ''thermal_conductivity_w_mk'' = Inr (138, 167)"
  "range_slider default_widgets loaded_frac ''electrical_conductivity_iacs'' = Inr (35, 43)"
  by (simp_all add: range_slider_def slider_bounds_def loaded_frac_columns ebind_def
      series_min_def series_max_def int_of_cell_def trunc_87_2 default_widgets_def)
    (simp_all add: trunc_def)

lemma loaded_frac_controls: "filter_controls default_widgets loaded_frac = Inr full_span_frac"
proof -
  have "py_sorted (unique [Str ''A'', Str ''B'']) = Inr [Str ''A'', Str ''B'']"
    by (simp add: py_sorted_def unique_def)
  from filter_controls_default [OF loaded_frac_columns(1) this loaded_frac_sliders]
  show ?thesis by (simp add: full_span_frac_def)
qed

text \<open>
  C1 on the code. The file holds A5052-H32 with an electrical conductivity of 35 and
  A6061-T6 with one of 43.5. The load succeeds with both rows. With every control left
  at its default, all categories are selected and the conductivity slider spans 35 to
  43, because \<open>int(43.5)\<close> is 43; the filter then keeps A5052 only.
\<close>

theorem full_span_drops_fractional_row:
  "load_alloy_data (Inr two_rows_frac) = (loaded_frac, []) \<and>
   map (\<lambda>r. r ''alloy'') (rows loaded_frac) = [Str ''A5052'', Str ''A6061''] \<and>
   series_max [Num 35, Num (87 / 2)] = Inr (Num (87 / 2)) \<and>
   filter_controls default_widgets loaded_frac = Inr full_span_frac \<and>
   elec_cond_range full_span_frac = (35, 43) \<and>
   apply_filter loaded_frac full_span_frac = Inr (loaded_frac\<lparr>rows := [clean_row True a5052]\<rparr>)"
proof -
  have ready: "filter_ready loaded_frac"
    by (simp add: filter_ready_def filter_columns_def loaded_frac_def two_rows_frac_def
        header_members loaded_frac_cells)
  have 1: "retained full_span_frac (clean_row True a5052)"
    by (simp add: retained_def full_span_frac_def loaded_frac_cells)
  have 2: "\<not> retained full_span_frac (clean_row True a6061_frac)"
    by (simp add: retained_def full_span_frac_def loaded_frac_cells)
  have "apply_filter loaded_frac full_span_frac =
      Inr (loaded_frac\<lparr>rows := [clean_row True a5052]\<rparr>)"
    using apply_filter_rows [OF ready, of full_span_frac] 1 2 by (simp add: loaded_frac_def)
  moreover have "map (\<lambda>r. r ''alloy'') (rows loaded_frac) = [Str ''A5052'', Str ''A6061'']"
    by (simp add: loaded_frac_def loaded_frac_cells)
  moreover have "series_max [Num 35, Num (87 / 2)] = Inr (Num (87 / 2))"
    by (simp add: series_max_def)
  moreover have "elec_cond_range full_span_frac = (35, 43)"
    by (simp add: full_span_frac_def)
  ultimately show ?thesis
    using load_two_rows_frac loaded_frac_controls by blast
qed

subsection \<open>Choosing and resolving\<close>

lemma find_filter: "find P xs = (case filter P xs of [] \<Rightarrow> None | x # _ \<Rightarrow> Some x)"
  by (induction xs) simp_all

lemma takeWhile_short: "x \<in> set xs \<Longrightarrow> length (takeWhile (\<lambda>y. y \<noteq> x) xs) < length xs"
  by (induction xs) auto

lemma index_or_0_less: "xs \<noteq> [] \<Longrightarrow> index_or_0 x xs < length xs"
proof -
  assume ne: "xs \<noteq> []"
  show ?thesis
  proof (cases "x \<in> set xs")
    case True
    then show ?thesis by (simp add: index_or_0_def takeWhile_short)
  next
    case False
    with ne show ?thesis by (simp add: index_or_0_def)
  qed
qed

lemma eq_cell_text: "eq_cell x (Str s) \<longleftrightarrow> x = Str s"
  by (auto simp: eq_cell_def)

lemma tempers_of_text:
  assumes "identified fdf" and "r0 \<in> set (rows fdf)" and "r0 ''alloy'' = Str a"
  shows "\<exists>ts. tempers_of fdf (Str a) = Inr ts \<and> ts \<noteq> [] \<and>
           set ts = (\<lambda>r. r ''temper'') ` {r \<in> set (rows fdf). r ''alloy'' = Str a}"
proof -
  let ?A = "map (\<lambda>r. r ''alloy'') (rows fdf)"
  let ?sub = "filter (\<lambda>r. r ''alloy'' = Str a) (rows fdf)"
  let ?T = "map (\<lambda>r. r ''temper'') ?sub"
  have ga: "getitem fdf ''alloy'' = Inr ?A"
    using assms(1) by (simp add: identified_def getitem_present)
  have sel: "select_rows fdf (eq_mask ?A (Str a)) = fdf\<lparr>rows := ?sub\<rparr>"
    by (simp add: eq_mask_map select_rows_map eq_cell_text)
  have gt: "getitem (fdf\<lparr>rows := ?sub\<rparr>) ''temper'' = Inr ?T"
    using assms(1) by (simp add: identified_def getitem_def)
  have "list_all is_text (unique ?T)"
    using assms(1) by (fastforce simp: identified_def list_all_iff unique_set)
  from py_sorted_text [OF this] obtain ts where
    ts: "py_sorted (unique ?T) = Inr ts" "set ts = set ?T"
    by (auto simp: unique_set)
  have "r0 ''temper'' \<in> set ?T"
    using assms(2,3) by simp
  with ts(2) have "ts \<noteq> []" by auto
  moreover have "tempers_of fdf (Str a) = Inr ts"
    by (simp add: tempers_of_def ga sel gt ts(1) ebind_def)
  moreover have "set ?T = (\<lambda>r. r ''temper'') ` {r \<in> set (rows fdf). r ''alloy'' = Str a}"
    by auto
  ultimately show ?thesis using ts(2) by blast
qed

lemma resolve_text:
  assumes "identified fdf" and "r0 \<in> set (rows fdf)"
    and "r0 ''alloy'' = Str a" and "r0 ''temper'' = Str t" and "a \<noteq> []" and "t \<noteq> []"
  shows "\<exists>r. resolve fdf alloy_list (Some (Str a)) (Some (Str t)) = Inr (Detail r) \<and>
           find (\<lambda>r. r ''alloy'' = Str a \<and> r ''temper'' = Str t) (rows fdf) = Some r \<and>
           r \<in> set (rows fdf)"
proof -
  let ?P = "\<lambda>r. r ''alloy'' = Str a \<and> r ''temper'' = Str t"
  have ga: "getitem fdf ''alloy'' = Inr (map (\<lambda>r. r ''alloy'') (rows fdf))"
    and gt: "getitem fdf ''temper'' = Inr (map (\<lambda>r. r ''temper'') (rows fdf))"
    using assms(1) by (simp_all add: identified_def getitem_present)
  have sel: "rows (select_rows fdf (mask_and (eq_mask (map (\<lambda>r. r ''alloy'') (rows fdf)) (Str a))
      (eq_mask (map (\<lambda>r. r ''temper'') (rows fdf)) (Str t)))) = filter ?P (rows fdf)"
    by (simp add: eq_mask_map mask_and_map select_rows_map eq_cell_text)
  have "r0 \<in> set (filter ?P (rows fdf))"
    using assms(2,3,4) by simp
  then obtain r rest where f: "filter ?P (rows fdf) = r # rest"
    by (cases "filter ?P (rows fdf)") auto
  then have "r \<in> set (filter ?P (rows fdf))" by simp
  then have "r \<in> set (rows fdf)" by simp
  moreover have "find ?P (rows fdf) = Some r"
    by (simp add: find_filter f)
  moreover have "resolve fdf alloy_list (Some (Str a)) (Some (Str t)) = Inr (Detail r)"
    using assms(5,6) by (simp add: resolve_def ga gt ebind_def sel f)
  ultimately show ?thesis by blast
qed

text \<open>
  Identifiers present. For a filtered table whose alloy and temper cells are non-empty
  text, and a \<open>selectbox\<close> that returns one of its options: with no rows there is no
  selection, no resolution is attempted and the page shows the warning; with rows, an
  alloy and a temper are chosen and the record shown is the first row of the filtered
  table that has both, which is a row of that table.
\<close>

lemma selection_resolver:
  assumes "identified fdf" and "selectbox_ok W"
  shows "(rows fdf = [] \<longrightarrow>
            selection_controls W fdf = Inr ([], None, None) \<and>
            select_and_resolve W fdf = Inr NoMatchWarning) \<and>
         (rows fdf \<noteq> [] \<longrightarrow>
            (\<exists>alloy_list a t r.
               selection_controls W fdf = Inr (alloy_list, Some a, Some t) \<and>
               select_and_resolve W fdf = Inr (Detail r) \<and>
               find (\<lambda>r. r ''alloy'' = a \<and> r ''temper'' = t) (rows fdf) = Some r \<and>
               r \<in> set (rows fdf)))"
proof (intro conjI impI)
  let ?A = "map (\<lambda>r. r ''alloy'') (rows fdf)"
  have ga: "getitem fdf ''alloy'' = Inr ?A"
    using assms(1) by (simp add: identified_def getitem_present)
  {
    assume "rows fdf = []"
    then have s: "selection_controls W fdf = Inr ([], None, None)"
      by (simp add: selection_controls_def ga ebind_def unique_def py_sorted_def)
    then show "selection_controls W fdf = Inr ([], None, None)" .
    from s show "select_and_resolve W fdf = Inr NoMatchWarning"
      by (simp add: select_and_resolve_def ebind_def resolve_def)
  }
  {
    assume ne: "rows fdf \<noteq> []"
    have "list_all is_text (unique ?A)"
      using assms(1) by (fastforce simp: identified_def list_all_iff unique_set)
    from py_sorted_text [OF this] obtain alloy_list where
      al: "py_sorted (unique ?A) = Inr alloy_list" "set alloy_list = set ?A"
      by (auto simp: unique_set)
    have alne: "alloy_list \<noteq> []"
      using ne al(2) by auto
    let ?i = "index_or_0 (Str ''A5052'') alloy_list"
    obtain x where x: "x \<in> set alloy_list" "selectbox W ''alloy'' alloy_list ?i = Some x"
      using assms(2) index_or_0_less [OF alne, of "Str ''A5052''"]
      unfolding selectbox_ok_def by blast
    from x(1) al(2) obtain r0 where r0: "r0 \<in> set (rows fdf)" "r0 ''alloy'' = x" by auto
    with assms(1) obtain a where a: "x = Str a" "a \<noteq> []"
      unfolding identified_def by metis
    from tempers_of_text [OF assms(1) r0(1)] r0(2) a(1) obtain ts where
      ts: "tempers_of fdf (Str a) = Inr ts" "ts \<noteq> []"
        "set ts = (\<lambda>r. r ''temper'') ` {r \<in> set (rows fdf). r ''alloy'' = Str a}"
      by blast
    let ?j = "index_or_0 (Str ''H32'') ts"
    obtain y where y: "y \<in> set ts" "selectbox W ''temper'' ts ?j = Some y"
      using assms(2) index_or_0_less [OF ts(2), of "Str ''H32''"]
      unfolding selectbox_ok_def by blast
    from y(1) ts(3) obtain r1 where r1: "r1 \<in> set (rows fdf)" "r1 ''alloy'' = Str a" "r1 ''temper'' = y"
      by auto
    with assms(1) obtain t where t: "y = Str t" "t \<noteq> []"
      unfolding identified_def by metis
    have sc: "selection_controls W fdf = Inr (alloy_list, Some (Str a), Some (Str t))"
      using alne a t x(2) y(2) ts(1)
      by (simp add: selection_controls_def ga al(1) ebind_def)
    have r1t: "r1 ''temper'' = Str t" using r1(3) t(1) by simp
    from resolve_text [OF assms(1) r1(1) r1(2) r1t a(2) t(2), of alloy_list]
    obtain r where r: "resolve fdf alloy_list (Some (Str a)) (Some (Str t)) = Inr (Detail r)"
        "find (\<lambda>r. r ''alloy'' = Str a \<and> r ''temper'' = Str t) (rows fdf) = Some r"
        "r \<in> set (rows fdf)"
      by blast
    have "select_and_resolve W fdf = Inr (Detail r)"
      by (simp add: select_and_resolve_def sc ebind_def r(1))
    with sc r(2,3)
    show "\<exists>alloy_list a t r.
               selection_controls W fdf = Inr (alloy_list, Some a, Some t) \<and>
               select_and_resolve W fdf = Inr (Detail r) \<and>
               find (\<lambda>r. r ''alloy'' = a \<and> r ''temper'' = t) (rows fdf) = Some r \<and>
               r \<in> set (rows fdf)"
      by blast
  }
qed

lemma selectbox_ok_default: "selectbox_ok default_widgets"
  by (simp add: selectbox_ok_def default_widgets_def)

lemma identified_two_rows: "identified two_rows"
  by (simp add: identified_def two_rows_def header_members a5052_cells a6061_cells)

lemma two_rows_selection:
  "selection_controls default_widgets two_rows =
     Inr ([Str ''A5052'', Str ''A6061''], Some (Str ''A5052''), Some (Str ''H32''))"
proof -
  have ga: "getitem two_rows ''alloy'' = Inr [Str ''A5052'', Str ''A6061'']"
    by (simp add: getitem_def two_rows_def header_members a5052_cells a6061_cells)
  have so: "py_sorted (unique [Str ''A5052'', Str ''A6061'']) = Inr [Str ''A5052'', Str ''A6061'']"
    by (simp add: py_sorted_def unique_def)
  have sel: "select_rows two_rows (eq_mask [Str ''A5052'', Str ''A6061''] (Str ''A5052''))
      = two_rows\<lparr>rows := [a5052]\<rparr>"
    by (simp add: select_rows_def eq_mask_def eq_cell_def two_rows_def)
  have gt: "getitem (two_rows\<lparr>rows := [a5052]\<rparr>) ''temper'' = Inr [Str ''H32'']"
    by (simp add: getitem_def two_rows_def header_members a5052_cells)
  have te: "tempers_of two_rows (Str ''A5052'') = Inr [Str ''H32'']"
    by (simp add: tempers_of_def ga ebind_def sel gt unique_def py_sorted_def)
  show ?thesis
    by (simp add: selection_controls_def ga so ebind_def default_widgets_def index_or_0_def te)
qed

lemma selection_resolver_example:
  "identified two_rows \<and> selectbox_ok default_widgets \<and> rows two_rows \<noteq> [] \<and>
   select_and_resolve default_widgets two_rows = Inr (Detail a5052) \<and>
   identified (two_rows\<lparr>rows := []\<rparr>) \<and>
   select_and_resolve default_widgets (two_rows\<lparr>rows := []\<rparr>) = Inr NoMatchWarning"
proof -
  have ne: "rows two_rows \<noteq> []" by (simp add: two_rows_def)
  from selection_resolver [OF identified_two_rows selectbox_ok_default] ne
  obtain alloy_list a t r where
    sc: "selection_controls default_widgets two_rows = Inr (alloy_list, Some a, Some t)"
    and sr: "select_and_resolve default_widgets two_rows = Inr (Detail r)"
    and f: "find (\<lambda>r. r ''alloy'' = a \<and> r ''temper'' = t) (rows two_rows) = Some r"
    by blast
  from sc have "a = Str ''A5052''" "t = Str ''H32''"
    by (simp_all add: two_rows_selection)
  with f have "r = a5052"
    by (simp add: two_rows_def a5052_cells)
  have ie: "identified (two_rows\<lparr>rows := []\<rparr>)"
    by (simp add: identified_def two_rows_def header_members)
  from selection_resolver [OF ie selectbox_ok_default]
  have "select_and_resolve default_widgets (two_rows\<lparr>rows := []\<rparr>) = Inr NoMatchWarning"
    by simp
  with sr \<open>r = a5052\<close> ne ie identified_two_rows selectbox_ok_default show ?thesis
    by blast
qed

subsection \<open>The scenario of two alloys, from the file to the detail pane\<close>

lemma load_two_rows: "load_alloy_data (Inr two_rows) = (loaded_two, [])"
proof -
  have "set cols_to_fill \<subseteq> set (columns two_rows)"
    using cols_to_fill_in_header by (simp add: two_rows_def)
  from load_body_present [OF this] show ?thesis
    by (simp add: load_alloy_data_success loaded_two_def two_rows_def header_members)
qed

lemma loaded_two_cells:
  "clean_row True a5052 ''alloy'' = Str ''A5052''"
  "clean_row True a5052 ''temper'' = Str ''H32''"
  "clean_row True a5052 ''corrosion_resistance'' = Str ''A''"
  "clean_row True a5052 ''tensile_strength_mpa'' = Num 230"
  "clean_row True a5052 ''yield_strength_mpa'' = Num 195"
  "clean_row True a5052 ''elongation_percent'' = Num 12"
  "clean_row True a5052 ''thermal_conductivity_w_mk'' = Num 138"
  "clean_row True a5052 ''electrical_conductivity_iacs'' = Num 35"
  "clean_row True a6061 ''alloy'' = Str ''A6061''"
  "clean_row True a6061 ''temper'' = Str ''T6''"
  "clean_row True a6061 ''corrosion_resistance'' = Str ''B''"
  "clean_row True a6061 ''tensile_strength_mpa'' = Num 310"
  "clean_row True a6061 ''yield_strength_mpa'' = Num 275"
  "clean_row True a6061 ''elongation_percent'' = Num 12"
  "clean_row True a6061 ''thermal_conductivity_w_mk'' = Num 167"
  "clean_row True a6061 ''electrical_conductivity_iacs'' = Num 43"
  by (simp_all add: clean_row_present a5052_cells a6061_cells)

text \<open>With whole numbers in the file, the untouched controls keep both rows.\<close>

lemma two_rows_full_span:
  "\<exists>fs. filter_controls default_widgets loaded_two = Inr fs \<and>
        apply_filter loaded_two fs = Inr loaded_two"
proof (rule full_span_keeps_whole_rows)
  show "rows loaded_two \<noteq> []" by (simp add: loaded_two_def)
  show "''corrosion_resistance'' \<in> set (columns loaded_two)"
    by (simp add: loaded_two_def two_rows_def header_members)
  show "\<forall>r\<in>set (rows loaded_two). is_text (r ''corrosion_resistance'')"
    by (simp add: loaded_two_def loaded_two_cells)
  show "\<forall>c\<in>set filter_columns.
       c \<in> set (columns loaded_two) \<and> (\<forall>r\<in>set (rows loaded_two). \<exists>x\<in>\<int>. r c = Num x)"
    by (simp add: filter_columns_def loaded_two_def two_rows_def header_members loaded_two_cells)
qed

lemma loaded_two_resolved:
  "select_and_resolve default_widgets loaded_two = Inr (Detail (clean_row True a5052))"
proof -
  have ga: "getitem loaded_two ''alloy'' = Inr [Str ''A5052'', Str ''A6061'']"
    by (simp add: getitem_def loaded_two_def two_rows_def header_members loaded_two_cells)
  have gt: "getitem loaded_two ''temper'' = Inr [Str ''H32'', Str ''T6'']"
    by (simp add: getitem_def loaded_two_def two_rows_def header_members loaded_two_cells)
  have so: "py_sorted (unique [Str ''A5052'', Str ''A6061'']) = Inr [Str ''A5052'', Str ''A6061'']"
    by (simp add: py_sorted_def unique_def)
  have sel: "select_rows loaded_two (eq_mask [Str ''A5052'', Str ''A6061''] (Str ''A5052''))
      = loaded_two\<lparr>rows := [clean_row True a5052]\<rparr>"
    by (simp add: select_rows_def eq_mask_def eq_cell_def loaded_two_def)
  have gs: "getitem (loaded_two\<lparr>rows := [clean_row True a5052]\<rparr>) ''temper'' = Inr [Str ''H32'']"
    by (simp add: getitem_def loaded_two_def two_rows_def header_members loaded_two_cells)
  have te: "tempers_of loaded_two (Str ''A5052'') = Inr [Str ''H32'']"
    by (simp add: tempers_of_def ga ebind_def sel gs unique_def py_sorted_def)
  have sc: "selection_controls default_widgets loaded_two =
      Inr ([Str ''A5052'', Str ''A6061''], Some (Str ''A5052''), Some (Str ''H32''))"
    by (simp add: selection_controls_def ga so ebind_def default_widgets_def index_or_0_def te)
  have rw: "rows loaded_two = [clean_row True a5052, clean_row True a6061]"
    by (simp add: loaded_two_def)
  show ?thesis
    by (simp add: select_and_resolve_def sc ebind_def resolve_def ga gt select_rows_def
        mask_and_def eq_mask_def eq_cell_def rw)
qed

text \<open>
  A first run of \<open>main\<close> in a session, counter at 41: the visit is counted, both rows
  pass the untouched filter and the detail pane shows A5052-H32.
\<close>

lemma main_two_rows:
  "main default_widgets \<lparr>csv = Inr two_rows, counter = fresh_counter, counted = False\<rparr> =
     (\<lparr>csv = Inr two_rows, counter = \<lparr>stored = Some ''42'', write_ok = True\<rparr>, counted = True\<rparr>,
      [], Inr (Detail (clean_row True a5052)))"
proof -
  have ne: "\<not> is_empty loaded_two"
    by (simp add: is_empty_def loaded_two_def two_rows_def csv_header_def)
  have g: "get_visitor_count fresh_counter = Inr 41"
    by (simp add: get_visitor_count_eq fresh_counter_def py_int_def strip_def is_space_def
        parse_nat_def is_digit_def digit_val_def)
  have w: "write_ok fresh_counter" by (simp add: fresh_counter_def)
  have s42: "py_str 42 = ''42''" by code_simp
  have inc: "increment_visitor_count fresh_counter = Inr (\<lparr>stored = Some ''42'', write_ok = True\<rparr>, [])"
    using increment_visitor_count_ok [OF w g] by (simp add: s42 fresh_counter_def)
  have cv: "count_visit \<lparr>csv = Inr two_rows, counter = fresh_counter, counted = False\<rparr> =
      Inr (\<lparr>csv = Inr two_rows, counter = \<lparr>stored = Some ''42'', write_ok = True\<rparr>, counted = True\<rparr>, [])"
    by (simp add: count_visit_def inc ebind_def)
  have g2: "get_visitor_count \<lparr>stored = Some ''42'', write_ok = True\<rparr> = Inr 42"
    using get_after_write [of 42 "\<lparr>stored = Some ''42'', write_ok = True\<rparr>"] by (simp add: s42)
  have r: "render default_widgets loaded_two = Inr (Detail (clean_row True a5052))"
    using two_rows_full_span by (auto simp: render_def ebind_def loaded_two_resolved)
  show ?thesis
    by (simp add: main_def load_two_rows ne cv g2 ebind_def r)
qed

subsection \<open>A tensile strength below zero\<close>








lemma counted_session_start:
  "csv (counted_session file) = Inr file"
  "count_visit (counted_session file) = Inr (counted_session file, [])"
  "get_visitor_count (counter (counted_session file)) = Inr 41"
  by (simp_all add: count_visit_def counted_session_def get_visitor_count_eq fresh_counter_def
      py_int_def strip_def is_space_def parse_nat_def is_digit_def digit_val_def)

lemma main_counted:
  assumes "load_alloy_data (Inr file) = (df, msgs)" and "\<not> is_empty df"
  shows "main W (counted_session file) = (counted_session file, msgs, render W df)"
  using assms by (simp add: main_def counted_session_start ebind_def)



subsection \<open>A row without a temper\<close>

lemma load_blank_temper: "load_alloy_data (Inr blank_temper) = (loaded_blank_temper, [])"
proof -
  have "set cols_to_fill \<subseteq> set (columns blank_temper)"
    using cols_to_fill_in_header by (simp add: blank_temper_def)
  from load_body_present [OF this] show ?thesis
    by (simp add: load_alloy_data_success loaded_blank_temper_def blank_temper_def header_members)
qed

lemma temper_not_filled: "''temper'' \<notin> set cols_to_fill"
  by (simp add: cols_to_fill_def)

lemma a1050_no_temper_cells:
  "clean_row True a1050_no_temper ''alloy'' = Str ''A1050''"
  "clean_row True a1050_no_temper ''temper'' = NaN"
  "clean_row True a1050_no_temper ''corrosion_resistance'' = Str ''A''"
  "clean_row True a1050_no_temper ''tensile_strength_mpa'' = Num 75"
  "clean_row True a1050_no_temper ''yield_strength_mpa'' = Num 30"
  "clean_row True a1050_no_temper ''elongation_percent'' = Num 40"
  "clean_row True a1050_no_temper ''thermal_conductivity_w_mk'' = Num 230"
  "clean_row True a1050_no_temper ''electrical_conductivity_iacs'' = Num 61"
  using clean_row_cells(3) [OF temper_not_filled, of True a1050_no_temper]
  by (simp_all add: clean_row_present a1050_no_temper_def alloy_row_def)

lemma blank_temper_columns:
  "getitem loaded_blank_temper ''corrosion_resistance'' = Inr [Str ''A'']"
  "getitem loaded_blank_temper ''tensile_strength_mpa'' = Inr [Num 75]"
  "getitem loaded_blank_temper ''yield_strength_mpa'' = Inr [Num 30]"
  "getitem loaded_blank_temper ''elongation_percent'' = Inr [Num 40]"
  "getitem loaded_blank_temper ''thermal_conductivity_w_mk'' = Inr [Num 230]"
  "getitem loaded_blank_temper ''electrical_conductivity_iacs'' = Inr [Num 61]"
  "getitem loaded_blank_temper ''alloy'' = Inr [Str ''A1050'']"
  "getitem loaded_blank_temper ''temper'' = Inr [NaN]"
  by (simp_all add: getitem_def loaded_blank_temper_def blank_temper_def header_members
      a1050_no_temper_cells)

lemma blank_temper_sliders:
  "range_slider default_widgets loaded_blank_temper ''tensile_strength_mpa'' = Inr (75, 76)"
  "range_slider default_widgets loaded_blank_temper ''yield_strength_mpa'' = Inr (30, 31)"
  "range_slider default_widgets loaded_blank_temper ''elongation_percent'' = Inr (40, 41)"
  "range_slider default_widgets loaded_blank_temper ''thermal_conductivity_w_mk'' = Inr (230, 231)"
  "range_slider default_widgets loaded_blank_temper ''electrical_conductivity_iacs'' = Inr (61, 62)"
  by (simp_all add: range_slider_def slider_bounds_def blank_temper_columns ebind_def
      series_min_def series_max_def int_of_cell_def default_widgets_def trunc_def)

lemma blank_temper_filter_controls:
  "filter_controls default_widgets loaded_blank_temper = Inr blank_temper_controls"
proof -
  have "py_sorted (unique [Str ''A'']) = Inr [Str ''A'']"
    by (simp add: py_sorted_def unique_def)
  from filter_controls_default [OF blank_temper_columns(1) this blank_temper_sliders]
  show ?thesis by (simp add: blank_temper_controls_def)
qed

lemma blank_temper_filtered:
  "apply_filter loaded_blank_temper blank_temper_controls = Inr loaded_blank_temper"
proof -
  have ready: "filter_ready loaded_blank_temper"
    by (simp add: filter_ready_def filter_columns_def loaded_blank_temper_def blank_temper_def
        header_members a1050_no_temper_cells)
  have "retained blank_temper_controls (clean_row True a1050_no_temper)"
    by (simp add: retained_def blank_temper_controls_def a1050_no_temper_cells)
  then have "filter (retained blank_temper_controls) (rows loaded_blank_temper) =
      rows loaded_blank_temper"
    by (simp add: loaded_blank_temper_def)
  then show ?thesis
    using apply_filter_rows [OF ready, of blank_temper_controls] by simp
qed

lemma blank_temper_selection:
  "selection_controls default_widgets loaded_blank_temper =
     Inr ([Str ''A1050''], Some (Str ''A1050''), Some NaN)"
proof -
  have sel: "select_rows loaded_blank_temper (eq_mask [Str ''A1050''] (Str ''A1050'')) =
      loaded_blank_temper"
    by (simp add: select_rows_def eq_mask_def eq_cell_def loaded_blank_temper_def)
  have te: "tempers_of loaded_blank_temper (Str ''A1050'') = Inr [NaN]"
    by (simp add: tempers_of_def blank_temper_columns ebind_def sel unique_def py_sorted_def)
  show ?thesis
    by (simp add: selection_controls_def blank_temper_columns ebind_def unique_def py_sorted_def
        default_widgets_def index_or_0_def te)
qed

lemma blank_temper_no_match:
  "rows (select_rows loaded_blank_temper (mask_and (eq_mask [Str ''A1050''] (Str ''A1050''))
      (eq_mask [NaN] NaN))) = []"
  by (simp add: select_rows_def mask_and_def eq_mask_def eq_cell_def loaded_blank_temper_def)

text \<open>
  C3 on the code. The file has one row, alloy A1050, with an empty temper field. The
  load succeeds and leaves the temper missing; the untouched filter keeps the row, so
  the filtered table is not empty. The alloy list is \<open>[A1050]\<close>, its temper list is
  \<open>[nan]\<close>, and the two select boxes return A1050 and \<open>nan\<close>. Both count as true, so a
  row is looked up; \<open>temper == nan\<close> holds of no row, and \<open>.iloc[0]\<close> raises \<open>IndexError\<close>
  out of \<open>main\<close>.
\<close>

theorem blank_temper_raises_index_error:
  "load_alloy_data (Inr blank_temper) = (loaded_blank_temper, []) \<and>
   filter_controls default_widgets loaded_blank_temper = Inr blank_temper_controls \<and>
   apply_filter loaded_blank_temper blank_temper_controls = Inr loaded_blank_temper \<and>
   rows loaded_blank_temper = [clean_row True a1050_no_temper] \<and>
   clean_row True a1050_no_temper ''temper'' = NaN \<and>
   selection_controls default_widgets loaded_blank_temper =
     Inr ([Str ''A1050''], Some (Str ''A1050''), Some NaN) \<and>
   resolve loaded_blank_temper [Str ''A1050''] (Some (Str ''A1050'')) (Some NaN) = Inl IndexError \<and>
   select_and_resolve default_widgets loaded_blank_temper = Inl IndexError \<and>
   main default_widgets (counted_session blank_temper) =
     (counted_session blank_temper, [], Inl IndexError)"
proof -
  have rw: "rows loaded_blank_temper = [clean_row True a1050_no_temper]"
    by (simp add: loaded_blank_temper_def)
  have rs: "resolve loaded_blank_temper [Str ''A1050''] (Some (Str ''A1050'')) (Some NaN) =
      Inl IndexError"
    by (simp add: resolve_def blank_temper_columns ebind_def blank_temper_no_match)
  have sr: "select_and_resolve default_widgets loaded_blank_temper = Inl IndexError"
    by (simp add: select_and_resolve_def blank_temper_selection ebind_def rs)
  have ne: "\<not> is_empty loaded_blank_temper"
    by (simp add: is_empty_def loaded_blank_temper_def blank_temper_def csv_header_def)
  have r: "render default_widgets loaded_blank_temper = Inl IndexError"
    by (simp add: render_def blank_temper_filter_controls blank_temper_filtered ebind_def sr)
  have m: "main default_widgets (counted_session blank_temper) =
      (counted_session blank_temper, [], Inl IndexError)"
    using main_counted [OF load_blank_temper ne, of default_widgets] r by simp
  show ?thesis
    using load_blank_temper blank_temper_filter_controls blank_temper_filtered rw
      a1050_no_temper_cells(2) blank_temper_selection rs sr m by blast
qed

end
